theory Spec2Isabelle
  imports Main "HOL-Library.Word" "HOL-Library.Char_ord" "HOL-Library.List_Lexorder"
begin

unbundle bit_operations_syntax

section \<open>Data model of TextureManager.cpp\<close>

text \<open>
  Modelled from the spec: the path class \<open>VfsPath\<close> belongs to the library and is not
  among the sources. A path is kept as the list of its components, so that
  \<open>branch_path\<close> (the directory), \<open>leaf\<close> (the file name), the operator \<open>/\<close> and the
  iteration over a path in \<open>GetConverterSettings\<close> can be written directly: the loose
  cache path \<open>cache/<sourceDir>/<sourceName>.<hash8>.dds\<close> of the specification is
  \<open>cache\<close>, then the directory of the source, then one last component. Paths are
  compared component by component, each component as a string.
\<close>

type_synonym VfsPath = "string list"
type_synonym Handle = int
type_synonym u8 = "8 word"
type_synonym u32 = "32 word"
type_synonym u64 = "64 word"
type_synonym ptr = nat

definition branch_path :: "VfsPath \<Rightarrow> VfsPath" where
  "branch_path p = butlast p"

definition leaf :: "VfsPath \<Rightarrow> string" where
  "leaf p = (case rev p of [] \<Rightarrow> [] | c # _ \<Rightarrow> c)"

text \<open>
  Modelled from the spec: \<open>CTextureProperties\<close> is declared in TextureManager.h, which
  is not among the sources. The four fields are the ones \<open>TextureCacheCmp\<close> reads; the
  filter and wrap modes are GL enumerants and the anisotropy is an integer, as the
  property key of the specification has them, each with its linear order.
\<close>

record CTextureProperties =
  m_Path :: VfsPath
  m_Filter :: int
  m_Wrap :: int
  m_Aniso :: int

datatype State =
    UNLOADED
  | PREFETCH_NEEDS_LOADING
  | PREFETCH_NEEDS_CONVERTING
  | PREFETCH_IS_CONVERTING
  | HIGH_NEEDS_CONVERTING
  | HIGH_IS_CONVERTING
  | LOADED

text \<open>
  \<open>m_Self\<close> is a weak pointer: \<open>None\<close> while it has not been set, otherwise the address
  it was set from. The back pointer \<open>m_TextureManager\<close> is implicit, there is one manager.
\<close>

record CTexture =
  m_Handle :: Handle
  m_BaseColour :: u32
  m_State :: State
  m_Properties :: CTextureProperties
  m_Self :: "ptr option"

record FileInfo =
  MTime :: int
  Size :: int

text \<open>
  Modelled from the spec: the conversion scheduler (class \<open>CTextureConverter\<close>, whose
  source is graphics/TextureConverter.cpp) is not among the sources. Section 4.6 of the
  specification describes it as a thin adapter with a fire-and-forget \<open>Submit\<close>, a
  non-blocking \<open>Poll\<close> that returns at most one completed job per call, and a notion of
  a job being in flight. It is kept as a queue of submitted requests and a queue of
  results that have completed and wait to be polled; the worker that moves a request to
  the results is an outside step, \<open>worker_finish\<close>.
\<close>

record 's ConversionRequest =
  req_texture :: ptr
  req_src :: VfsPath
  req_dest :: VfsPath
  req_settings :: 's

record 's CTextureConverter =
  m_RequestQueue :: "'s ConversionRequest list"
  m_ResultQueue :: "(ptr \<times> VfsPath \<times> bool) list"

text \<open>
  The collaborators whose code lies outside the file are parameters of the model: the
  virtual file system (\<open>GetFilePriority\<close>, \<open>GetFileInfo\<close>; \<open>None\<close> is a negative return
  code), the GL resource layer (\<open>ogl_tex_wrap\<close>, \<open>ogl_tex_load\<close>, \<open>ogl_tex_upload\<close>,
  \<open>ogl_tex_get_average_colour\<close>, which receives the colour stored so far and returns the
  one stored afterwards), the settings files (\<open>LoadSettings\<close>, \<open>ComputeSettings\<close>, and
  \<open>SettingsHash\<close> for the bytes that \<open>Settings::Hash\<close> feeds to the digest) and the digest
  itself (\<open>MD5\<close>, from all bytes fed to the digest written out by \<open>Final\<close>).
\<close>

record ('f, 's) Env =
  GetFilePriority :: "VfsPath \<Rightarrow> nat option"
  GetFileInfo :: "VfsPath \<Rightarrow> FileInfo option"
  ogl_tex_wrap :: "string \<Rightarrow> Handle"
  ogl_tex_load :: "VfsPath \<Rightarrow> Handle"
  ogl_tex_upload :: "Handle \<Rightarrow> int"
  ogl_tex_get_average_colour :: "Handle \<Rightarrow> u32 \<Rightarrow> u32"
  LoadSettings :: "VfsPath \<Rightarrow> 'f option"
  ComputeSettings :: "string \<Rightarrow> 'f list \<Rightarrow> 's"
  SettingsHash :: "'s \<Rightarrow> u8 list"
  MD5 :: "u8 list \<Rightarrow> u8 list"

text \<open>
  The manager, together with the object store its pointers live in: \<open>heap\<close> gives the
  object at an address, \<open>live\<close> is the set of addresses whose object has not been
  destroyed (a weak pointer locks exactly when its address is live) and \<open>brk\<close> is the
  next address that \<open>new\<close> hands out. \<open>m_TextureCache\<close> is the ordered set as the list
  of its elements in iteration order; a set of weak pointers of \<open>m_HotloadFiles\<close> is a
  list without repetition.
\<close>

record ('f, 's) CTextureManagerImpl =
  m_DisableGL :: bool
  m_TextureConverter :: "'s CTextureConverter"
  m_DefaultHandle :: Handle
  m_ErrorHandle :: Handle
  m_ErrorTexture :: "ptr option"
  m_TextureCache :: "ptr list"
  m_HotloadFiles :: "VfsPath \<rightharpoonup> ptr list"
  m_SettingsFiles :: "VfsPath \<rightharpoonup> 'f option"
  heap :: "ptr \<Rightarrow> CTexture"
  live :: "ptr set"
  brk :: ptr

section \<open>The operations\<close>

subsection \<open>TextureCacheCmp\<close>

definition TextureCacheCmp :: "CTextureProperties \<Rightarrow> CTextureProperties \<Rightarrow> bool" where
  "TextureCacheCmp a b =
     (if m_Path a < m_Path b then True
      else if m_Path b < m_Path a then False
      else if m_Filter a < m_Filter b then True
      else if m_Filter b < m_Filter a then False
      else if m_Wrap a < m_Wrap b then True
      else if m_Wrap b < m_Wrap a then False
      else if m_Aniso a < m_Aniso b then True
      else if m_Aniso b < m_Aniso a then False
      else False)"

text \<open>The equivalence an ordered set derives from its comparator.\<close>

definition cmp_equiv :: "CTextureProperties \<Rightarrow> CTextureProperties \<Rightarrow> bool" where
  "cmp_equiv a b = (\<not> TextureCacheCmp a b \<and> \<not> TextureCacheCmp b a)"

subsection \<open>CTexture\<close>

text \<open>The constructor; the reference count kept by the handle manager is outside the model.\<close>

definition new_CTexture :: "Handle \<Rightarrow> CTextureProperties \<Rightarrow> CTexture" where
  "new_CTexture handle props =
     \<lparr>m_Handle = handle, m_BaseColour = 0, m_State = UNLOADED,
      m_Properties = props, m_Self = None\<rparr>"

definition SetHandle :: "Handle \<Rightarrow> CTexture \<Rightarrow> CTexture" where
  "SetHandle handle t = (if handle = m_Handle t then t else t\<lparr>m_Handle := handle\<rparr>)"

definition upd :: "ptr \<Rightarrow> (CTexture \<Rightarrow> CTexture) \<Rightarrow>
    ('f, 's) CTextureManagerImpl \<Rightarrow> ('f, 's) CTextureManagerImpl" where
  "upd a f m = m\<lparr>heap := (heap m)(a := f (heap m a))\<rparr>"

definition lock_weak :: "('f, 's) CTextureManagerImpl \<Rightarrow> ptr option \<Rightarrow> ptr option" where
  "lock_weak m w = (case w of None \<Rightarrow> None | Some a \<Rightarrow> if a \<in> live m then Some a else None)"

subsection \<open>CreateTexture\<close>

fun cache_find :: "(ptr \<Rightarrow> CTexture) \<Rightarrow> CTextureProperties \<Rightarrow> ptr list \<Rightarrow> ptr option" where
  "cache_find h k [] = None"
| "cache_find h k (b # bs) =
     (if cmp_equiv k (m_Properties (h b)) then Some b else cache_find h k bs)"

fun cache_insert :: "(ptr \<Rightarrow> CTexture) \<Rightarrow> ptr \<Rightarrow> ptr list \<Rightarrow> ptr list" where
  "cache_insert h a [] = [a]"
| "cache_insert h a (b # bs) =
     (if TextureCacheCmp (m_Properties (h a)) (m_Properties (h b)) then a # b # bs
      else if TextureCacheCmp (m_Properties (h b)) (m_Properties (h a))
        then b # cache_insert h a bs
      else b # bs)"

definition hotload_insert :: "VfsPath \<Rightarrow> ptr \<Rightarrow> (VfsPath \<rightharpoonup> ptr list) \<Rightarrow> (VfsPath \<rightharpoonup> ptr list)" where
  "hotload_insert path a hl =
     hl(path \<mapsto> List.insert a (case hl path of None \<Rightarrow> [] | Some l \<Rightarrow> l))"

text \<open>
  The probe object is built at the next free address; when an equivalent entry is found
  the probe is destroyed again on return, so the store is as before.
\<close>

definition CreateTexture :: "('f, 's) CTextureManagerImpl \<Rightarrow> CTextureProperties \<Rightarrow>
    ptr \<times> ('f, 's) CTextureManagerImpl" where
  "CreateTexture m props =
     (let texture = brk m;
          h = (heap m)(texture := new_CTexture (m_DefaultHandle m) props)
      in case cache_find h props (m_TextureCache m) of
           Some it \<Rightarrow> (it, m)
         | None \<Rightarrow>
             let h' = h(texture := (h texture)\<lparr>m_Self := Some texture\<rparr>)
             in (texture,
                 m\<lparr>heap := h', live := insert texture (live m), brk := Suc texture,
                   m_TextureCache := cache_insert h' texture (m_TextureCache m),
                   m_HotloadFiles := hotload_insert (m_Path props) texture (m_HotloadFiles m)\<rparr>))"

subsection \<open>LoadTexture\<close>

text \<open>
  The calls that only configure the GL object behind the new handle (wrap mode,
  anisotropy, the filter chosen from the mipmap flag) leave the manager and the texture
  object as they are and are not written out. What the texture object receives is the
  base colour and, through \<open>SetHandle\<close>, the handle.
\<close>

definition LoadTexture :: "('f, 's) Env \<Rightarrow> ('f, 's) CTextureManagerImpl \<Rightarrow> ptr \<Rightarrow> VfsPath \<Rightarrow>
    ('f, 's) CTextureManagerImpl" where
  "LoadTexture env m texture path =
     (if m_DisableGL m then m
      else
        let h = ogl_tex_load env path
        in if h \<le> 0 then upd texture (SetHandle (m_ErrorHandle m)) m
           else
             let m1 = upd texture
                        (\<lambda>t. t\<lparr>m_BaseColour := ogl_tex_get_average_colour env h (m_BaseColour t)\<rparr>) m
             in if \<not> m_DisableGL m1 \<and> ogl_tex_upload env h < 0
                then upd texture (SetHandle (m_ErrorHandle m1)) m1
                else upd texture (SetHandle h) m1)"

subsection \<open>CanUseArchiveCache\<close>

text \<open>
  \<open>difftime\<close> of two time stamps is their difference in seconds; it is compared with
  the threshold 2.0.
\<close>

definition difftime :: "int \<Rightarrow> int \<Rightarrow> int" where
  "difftime t1 t0 = t1 - t0"

definition CanUseArchiveCache :: "('f, 's) Env \<Rightarrow> VfsPath \<Rightarrow> VfsPath \<Rightarrow> bool" where
  "CanUseArchiveCache env sourcePath archiveCachePath =
     (case GetFilePriority env archiveCachePath of
        None \<Rightarrow> False
      | Some archiveCachePriority \<Rightarrow>
          (case GetFilePriority env sourcePath of
             None \<Rightarrow> True
           | Some sourcePriority \<Rightarrow>
               if archiveCachePriority < sourcePriority then False
               else
                 (case GetFileInfo env sourcePath of
                    None \<Rightarrow> True
                  | Some sourceInfo \<Rightarrow>
                      (case GetFileInfo env archiveCachePath of
                         None \<Rightarrow> True
                       | Some archiveCacheInfo \<Rightarrow>
                           let howMuchNewer = difftime (MTime sourceInfo) (MTime archiveCacheInfo);
                               threshold = 2
                           in if howMuchNewer > threshold then False else True))))"

subsection \<open>GetSettingsFile and GetConverterSettings\<close>

definition GetSettingsFile :: "('f, 's) Env \<Rightarrow> ('f, 's) CTextureManagerImpl \<Rightarrow> VfsPath \<Rightarrow>
    'f option \<times> ('f, 's) CTextureManagerImpl" where
  "GetSettingsFile env m path =
     (case m_SettingsFiles m path of
        Some f \<Rightarrow> (f, m)
      | None \<Rightarrow>
          if GetFileInfo env path \<noteq> None
          then let settings = LoadSettings env path
               in (settings, m\<lparr>m_SettingsFiles := (m_SettingsFiles m)(path \<mapsto> settings)\<rparr>)
          else (None, m\<lparr>m_SettingsFiles := (m_SettingsFiles m)(path \<mapsto> None)\<rparr>))"

text \<open>
  The loop of \<open>GetConverterSettings\<close> over the components of the source path: \<open>p\<close> is the
  prefix walked so far and \<open>files\<close> the settings files found.
\<close>

fun settings_loop :: "('f, 's) Env \<Rightarrow> ptr \<Rightarrow> string list \<Rightarrow> VfsPath \<Rightarrow> 'f list \<Rightarrow>
    ('f, 's) CTextureManagerImpl \<Rightarrow> 'f list \<times> ('f, 's) CTextureManagerImpl" where
  "settings_loop env texture [] p files m = (files, m)"
| "settings_loop env texture (c # cs) p files m =
     (let settingsPath = p @ [''textures.xml''];
          m1 = m\<lparr>m_HotloadFiles := hotload_insert settingsPath texture (m_HotloadFiles m)\<rparr>;
          (f, m2) = GetSettingsFile env m1 settingsPath;
          files' = (case f of Some x \<Rightarrow> files @ [x] | None \<Rightarrow> files)
      in settings_loop env texture cs (p @ [c]) files' m2)"

definition GetConverterSettings :: "('f, 's) Env \<Rightarrow> ('f, 's) CTextureManagerImpl \<Rightarrow> ptr \<Rightarrow>
    's \<times> ('f, 's) CTextureManagerImpl" where
  "GetConverterSettings env m texture =
     (let srcPath = m_Path (m_Properties (heap m texture));
          (files, m') = settings_loop env texture srcPath [] [] m
      in (ComputeSettings env (leaf srcPath) files, m'))"

subsection \<open>LooseCachePath\<close>

text \<open>The bytes of an integer as they lie in memory, lowest byte first.\<close>

definition bytes_of_u64 :: "u64 \<Rightarrow> u8 list" where
  "bytes_of_u64 w = map (\<lambda>i. ucast (drop_bit (8 * i) w)) [0..<8]"

definition bytes_of_u32 :: "u32 \<Rightarrow> u8 list" where
  "bytes_of_u32 w = map (\<lambda>i. ucast (drop_bit (8 * i) w)) [0..<4]"

text \<open>
  Output of a number to a stream in \<open>std::hex\<close> mode, and the padding that
  \<open>setfill(L'0')\<close> and \<open>setw(2)\<close> add to it.
\<close>

definition hex_digit :: "nat \<Rightarrow> char" where
  "hex_digit d = (if d < 16 then ''0123456789abcdef'' ! d else CHR ''?'')"

fun hex_of_nat :: "nat \<Rightarrow> string" where
  "hex_of_nat n = (if n < 16 then [hex_digit n] else hex_of_nat (n div 16) @ [hex_digit (n mod 16)])"

declare hex_of_nat.simps [simp del]

definition setw2 :: "string \<Rightarrow> string" where
  "setw2 s = replicate (2 - length s) (CHR ''0'') @ s"

text \<open>
  The loop over \<open>digest[0]\<close> to \<open>digest[7]\<close>. The array has \<open>MD5::DIGESTSIZE\<close> bytes, which
  \<open>Final\<close> fills; the list is the content of the array.
\<close>

fun digest_loop :: "u8 list \<Rightarrow> nat \<Rightarrow> nat \<Rightarrow> string" where
  "digest_loop digest i 0 = []"
| "digest_loop digest i (Suc n) =
     setw2 (hex_of_nat (unat (digest ! i))) @ digest_loop digest (Suc i) n"

definition version :: u32 where
  "version = 0"

text \<open>
  What \<open>LooseCachePath\<close> computes once the file information and the settings are known.
\<close>

definition loose_path :: "('f, 's) Env \<Rightarrow> VfsPath \<Rightarrow> FileInfo \<Rightarrow> 's \<Rightarrow> VfsPath" where
  "loose_path env sourcePath fileInfo settings =
     (let mtime = (word_of_int (MTime fileInfo) :: u64) AND NOT 1;
          size = (word_of_int (Size fileInfo) :: u64);
          digest = MD5 env (bytes_of_u64 mtime @ bytes_of_u64 size @ bytes_of_u32 version
                            @ SettingsHash env settings);
          digestPrefix = digest_loop digest 0 8;
          sourceDir = branch_path sourcePath;
          sourceName = leaf sourcePath
      in [''cache''] @ sourceDir @ [sourceName @ ''.'' @ digestPrefix @ ''.dds''])"

definition LooseCachePath :: "('f, 's) Env \<Rightarrow> ('f, 's) CTextureManagerImpl \<Rightarrow> ptr \<Rightarrow>
    VfsPath \<times> ('f, 's) CTextureManagerImpl" where
  "LooseCachePath env m texture =
     (let sourcePath = m_Path (m_Properties (heap m texture))
      in case GetFileInfo env sourcePath of
           None \<Rightarrow> ([], m)
         | Some fileInfo \<Rightarrow>
             let (settings, m') = GetConverterSettings env m texture
             in (loose_path env sourcePath fileInfo settings, m'))"

subsection \<open>TryLoadingCached\<close>

definition TryLoadingCached :: "('f, 's) Env \<Rightarrow> ('f, 's) CTextureManagerImpl \<Rightarrow> ptr \<Rightarrow>
    bool \<times> ('f, 's) CTextureManagerImpl" where
  "TryLoadingCached env m texture =
     (let sourcePath = m_Path (m_Properties (heap m texture));
          sourceDir = branch_path sourcePath;
          sourceName = leaf sourcePath;
          archiveCachePath = sourceDir @ [sourceName @ ''.dds'']
      in if CanUseArchiveCache env sourcePath archiveCachePath
         then (True, LoadTexture env m texture archiveCachePath)
         else if GetFileInfo env sourcePath = None
         then (True, upd texture (SetHandle (m_ErrorHandle m)) m)
         else
           let (looseCachePath, m1) = LooseCachePath env m texture
           in if GetFileInfo env looseCachePath \<noteq> None
              then (True, LoadTexture env m1 texture looseCachePath)
              else (False, m1))"

subsection \<open>The conversion scheduler\<close>

text \<open>
  Modelled from the spec: the number of jobs in flight. A job is in flight from its
  submission until \<open>Poll\<close> has drained its result.
\<close>

definition jobs_in_flight :: "'s CTextureConverter \<Rightarrow> nat" where
  "jobs_in_flight c = length (m_RequestQueue c) + length (m_ResultQueue c)"

text \<open>
  Modelled from the spec: \<open>CTextureConverter::IsBusy\<close>, false exactly when the scheduler
  has no job in flight.
\<close>

definition IsBusy :: "'s CTextureConverter \<Rightarrow> bool" where
  "IsBusy c = (jobs_in_flight c \<noteq> 0)"

text \<open>
  Modelled from the spec: \<open>CTextureConverter::Poll\<close>, non-blocking, returns at most one
  completed job per call (entry, destination path, success) and removes it.
\<close>

definition Poll :: "'s CTextureConverter \<Rightarrow> ((ptr \<times> VfsPath \<times> bool) \<times> 's CTextureConverter) option" where
  "Poll c = (case m_ResultQueue c of
               [] \<Rightarrow> None
             | r # rs \<Rightarrow> Some (r, c\<lparr>m_ResultQueue := rs\<rparr>))"

text \<open>
  Modelled from the spec: \<open>CTextureConverter::ConvertTexture\<close>, the fire-and-forget
  submission of a job.
\<close>

definition Submit :: "'s CTextureConverter \<Rightarrow> 's ConversionRequest \<Rightarrow> 's CTextureConverter" where
  "Submit c r = c\<lparr>m_RequestQueue := m_RequestQueue c @ [r]\<rparr>"

text \<open>
  Modelled from the spec: the worker, outside the manager, completes the job at the head
  of the request queue with success or failure and leaves the result to be polled.
\<close>

definition worker_finish :: "bool \<Rightarrow> 's CTextureConverter \<Rightarrow> 's CTextureConverter" where
  "worker_finish ok c =
     (case m_RequestQueue c of
        [] \<Rightarrow> c
      | r # rs \<Rightarrow> c\<lparr>m_RequestQueue := rs,
                     m_ResultQueue := m_ResultQueue c @ [(req_texture r, req_dest r, ok)]\<rparr>)"

subsection \<open>ConvertTexture and MakeProgress\<close>

definition ConvertTexture :: "('f, 's) Env \<Rightarrow> ('f, 's) CTextureManagerImpl \<Rightarrow> ptr \<Rightarrow>
    ('f, 's) CTextureManagerImpl" where
  "ConvertTexture env m texture =
     (let sourcePath = m_Path (m_Properties (heap m texture));
          (looseCachePath, m1) = LooseCachePath env m texture;
          (settings, m2) = GetConverterSettings env m1 texture
      in m2\<lparr>m_TextureConverter :=
               Submit (m_TextureConverter m2)
                 \<lparr>req_texture = texture, req_src = sourcePath,
                  req_dest = looseCachePath, req_settings = settings\<rparr>\<rparr>)"

text \<open>A scan of the cache in iteration order for the first entry in a given state.\<close>

fun find_state :: "(ptr \<Rightarrow> CTexture) \<Rightarrow> State \<Rightarrow> ptr list \<Rightarrow> ptr option" where
  "find_state h s [] = None"
| "find_state h s (it # its) = (if m_State (h it) = s then Some it else find_state h s its)"

definition set_state :: "State \<Rightarrow> CTexture \<Rightarrow> CTexture" where
  "set_state s t = t\<lparr>m_State := s\<rparr>"

definition MakeProgress :: "('f, 's) Env \<Rightarrow> ('f, 's) CTextureManagerImpl \<Rightarrow>
    bool \<times> ('f, 's) CTextureManagerImpl" where
  "MakeProgress env m =
     (case Poll (m_TextureConverter m) of
        Some ((texture, dest, ok), c') \<Rightarrow>
          let m0 = m\<lparr>m_TextureConverter := c'\<rparr>;
              m1 = (if ok then LoadTexture env m0 texture dest
                    else upd texture (SetHandle (m_ErrorHandle m0)) m0)
          in (True, upd texture (set_state LOADED) m1)
      | None \<Rightarrow>
          let converterBusy = IsBusy (m_TextureConverter m)
          in (case (if \<not> converterBusy
                    then find_state (heap m) HIGH_NEEDS_CONVERTING (m_TextureCache m)
                    else None) of
               Some it \<Rightarrow> (True, ConvertTexture env (upd it (set_state HIGH_IS_CONVERTING) m) it)
             | None \<Rightarrow>
                 (case find_state (heap m) PREFETCH_NEEDS_LOADING (m_TextureCache m) of
                    Some it \<Rightarrow>
                      let (r, m1) = TryLoadingCached env m it
                      in if r then (True, upd it (set_state LOADED) m1)
                         else (True, upd it (set_state PREFETCH_NEEDS_CONVERTING) m1)
                  | None \<Rightarrow>
                      (case (if \<not> converterBusy
                             then find_state (heap m) PREFETCH_NEEDS_CONVERTING (m_TextureCache m)
                             else None) of
                         Some it \<Rightarrow>
                           (True, ConvertTexture env
                                    (upd it (set_state PREFETCH_IS_CONVERTING) m) it)
                       | None \<Rightarrow> (False, m)))))"

subsection \<open>ReloadChangedFile\<close>

text \<open>
  The body of the loop over the weak pointers registered under the changed file, and
  the function itself; it always returns \<open>INFO::OK\<close>, which is left out.
\<close>

definition reload_one :: "ptr \<Rightarrow> ('f, 's) CTextureManagerImpl \<Rightarrow> ('f, 's) CTextureManagerImpl" where
  "reload_one it m =
     (case lock_weak m (Some it) of
        Some texture \<Rightarrow>
          upd texture (SetHandle (m_DefaultHandle m)) (upd texture (set_state UNLOADED) m)
      | None \<Rightarrow> m)"

definition ReloadChangedFile :: "('f, 's) CTextureManagerImpl \<Rightarrow> VfsPath \<Rightarrow>
    ('f, 's) CTextureManagerImpl" where
  "ReloadChangedFile m path =
     (let m1 = m\<lparr>m_SettingsFiles := (m_SettingsFiles m)(path := None)\<rparr>
      in case m_HotloadFiles m1 path of
           None \<Rightarrow> m1
         | Some files \<Rightarrow> fold reload_one files m1)"

subsection \<open>TryLoad and Prefetch\<close>

definition TryLoad :: "('f, 's) Env \<Rightarrow> ('f, 's) CTextureManagerImpl \<Rightarrow> ptr \<Rightarrow>
    bool \<times> ('f, 's) CTextureManagerImpl" where
  "TryLoad env m this =
     (let s = m_State (heap m this);
          m' = (if s = UNLOADED \<or> s = PREFETCH_NEEDS_LOADING \<or> s = PREFETCH_NEEDS_CONVERTING
                then (case lock_weak m (m_Self (heap m this)) of
                        Some self \<Rightarrow>
                          if s \<noteq> PREFETCH_NEEDS_CONVERTING
                          then let (r, m1) = TryLoadingCached env m self
                               in if r then upd this (set_state LOADED) m1
                                  else upd this (set_state HIGH_NEEDS_CONVERTING) m1
                          else upd this (set_state HIGH_NEEDS_CONVERTING) m
                      | None \<Rightarrow> m)
                else m)
      in (m_State (heap m' this) = LOADED, m'))"

definition Prefetch :: "('f, 's) CTextureManagerImpl \<Rightarrow> ptr \<Rightarrow> ('f, 's) CTextureManagerImpl" where
  "Prefetch m this =
     (if m_State (heap m this) = UNLOADED
      then (case lock_weak m (m_Self (heap m this)) of
              Some self \<Rightarrow> upd this (set_state PREFETCH_NEEDS_LOADING) m
            | None \<Rightarrow> m)
      else m)"

definition IsLoaded :: "('f, 's) CTextureManagerImpl \<Rightarrow> ptr \<Rightarrow> bool" where
  "IsLoaded m this = (m_State (heap m this) = LOADED)"

subsection \<open>The constructor\<close>

text \<open>
  \<open>errorProps\<close> stands for \<open>CTextureProperties(L"(error texture)")\<close>, whose constructor is
  declared in the header. Without GL both handles stay 0 and no error texture is built.
\<close>

definition empty_heap :: "ptr \<Rightarrow> CTexture" where
  "empty_heap = (\<lambda>_. new_CTexture 0 \<lparr>m_Path = [], m_Filter = 0, m_Wrap = 0, m_Aniso = 0\<rparr>)"

definition new_CTextureManagerImpl :: "('f, 's) Env \<Rightarrow> bool \<Rightarrow> CTextureProperties \<Rightarrow>
    ('f, 's) CTextureManagerImpl" where
  "new_CTextureManagerImpl env disableGL errorProps =
     (let m = \<lparr>m_DisableGL = disableGL,
               m_TextureConverter = \<lparr>m_RequestQueue = [], m_ResultQueue = []\<rparr>,
               m_DefaultHandle = 0, m_ErrorHandle = 0, m_ErrorTexture = None,
               m_TextureCache = [], m_HotloadFiles = Map.empty, m_SettingsFiles = Map.empty,
               heap = empty_heap, live = {}, brk = 0\<rparr>
      in if disableGL then m
         else
           let d = ogl_tex_wrap env ''(default texture)'';
               e = ogl_tex_wrap env ''(error texture)'';
               a = brk m
           in m\<lparr>m_DefaultHandle := d, m_ErrorHandle := e, m_ErrorTexture := Some a,
                 heap := (heap m)(a := (new_CTexture e errorProps)
                                         \<lparr>m_State := LOADED, m_Self := Some a\<rparr>),
                 live := insert a (live m), brk := Suc a\<rparr>)"

section \<open>Invariant of the cache and example configurations\<close>

text \<open>
  What \<open>CreateTexture\<close> maintains: every cached address lies below the allocation
  frontier, and no two cached entries carry equal properties.
\<close>

definition cache_inv :: "('f, 's) CTextureManagerImpl \<Rightarrow> bool" where
  "cache_inv m =
     ((\<forall>a \<in> set (m_TextureCache m). a < brk m) \<and>
      distinct (map (\<lambda>a. m_Properties (heap m a)) (m_TextureCache m)))"

text \<open>
  Concrete collaborators and managers on which the theorems below are exercised. A file
  system is a table from paths to a priority and a modification time; handle 66 is one
  whose upload fails.
\<close>

definition ex_env :: "(VfsPath \<rightharpoonup> nat \<times> int) \<Rightarrow> (VfsPath \<Rightarrow> Handle) \<Rightarrow> (nat, nat) Env" where
  "ex_env files load =
     \<lparr>GetFilePriority = (\<lambda>p. map_option fst (files p)),
      GetFileInfo = (\<lambda>p. map_option (\<lambda>x. \<lparr>MTime = snd x, Size = 1024\<rparr>) (files p)),
      ogl_tex_wrap = (\<lambda>n. if n = ''(default texture)'' then 1 else 2),
      ogl_tex_load = load,
      ogl_tex_upload = (\<lambda>h. if h = 66 then - 1 else 0),
      ogl_tex_get_average_colour = (\<lambda>h c. 8421504),
      LoadSettings = (\<lambda>p. Some 7),
      ComputeSettings = (\<lambda>n fs. sum_list fs),
      SettingsHash = (\<lambda>s. [of_nat s]),
      MD5 = (\<lambda>bs. replicate 16 (of_nat (length bs)))\<rparr>"

definition ex_src :: VfsPath where
  "ex_src = [''art'', ''a.png'']"

definition ex_archive :: VfsPath where
  "ex_archive = [''art'', ''a.png.dds'']"

definition ex_files :: "int \<Rightarrow> int \<Rightarrow> (VfsPath \<rightharpoonup> nat \<times> int)" where
  "ex_files ts ta = [ex_src \<mapsto> (0, ts), ex_archive \<mapsto> (0, ta)]"

definition ex_key :: "string \<Rightarrow> int \<Rightarrow> CTextureProperties" where
  "ex_key name aniso = \<lparr>m_Path = [''art'', name], m_Filter = 9987, m_Wrap = 10497, m_Aniso = aniso\<rparr>"

definition ex_manager :: "(nat, nat) CTextureManagerImpl" where
  "ex_manager = new_CTextureManagerImpl (ex_env Map.empty (\<lambda>p. 7)) False (ex_key ''(error texture)'' 1)"

text \<open>
  An entry is registered when its weak self pointer locks and yields the entry itself, as
  it does for every entry that \<open>CreateTexture\<close> has handed out.
\<close>

definition registered :: "('f, 's) CTextureManagerImpl \<Rightarrow> ptr \<Rightarrow> bool" where
  "registered m this = (lock_weak m (m_Self (heap m this)) = Some this)"

text \<open>The archive cache path that \<open>TryLoadingCached\<close> derives from a source path.\<close>

definition archive_cache_path :: "VfsPath \<Rightarrow> VfsPath" where
  "archive_cache_path sourcePath = branch_path sourcePath @ [leaf sourcePath @ ''.dds'']"

text \<open>A load of a file fails when \<open>ogl_tex_load\<close> or the upload of its handle fails.\<close>

definition load_fails :: "('f, 's) Env \<Rightarrow> VfsPath \<Rightarrow> bool" where
  "load_fails env path = (ogl_tex_load env path \<le> 0 \<or> ogl_tex_upload env (ogl_tex_load env path) < 0)"

text \<open>The example manager after one texture has been created; it lives at address 1.\<close>

definition ex_manager1 :: "(nat, nat) CTextureManagerImpl" where
  "ex_manager1 = snd (CreateTexture ex_manager (ex_key ''a.png'' 1))"

definition ex_in_state :: "State \<Rightarrow> (nat, nat) CTextureManagerImpl" where
  "ex_in_state s = upd 1 (set_state s) ex_manager1"

text \<open>
  The load that \<open>TryLoadingCached\<close> attempts for an entry fails: the archive cache is
  usable but does not load, or the source file is absent, or the loose cache file exists
  but does not load. Without GL no load is attempted at all.
\<close>

definition load_failure :: "('f, 's) Env \<Rightarrow> ('f, 's) CTextureManagerImpl \<Rightarrow> ptr \<Rightarrow> bool" where
  "load_failure env m this =
     (let sourcePath = m_Path (m_Properties (heap m this));
          archiveCachePath = archive_cache_path sourcePath;
          looseCachePath = fst (LooseCachePath env m this)
      in if CanUseArchiveCache env sourcePath archiveCachePath
         then \<not> m_DisableGL m \<and> load_fails env archiveCachePath
         else if GetFileInfo env sourcePath = None then True
         else GetFileInfo env looseCachePath \<noteq> None \<and>
              \<not> m_DisableGL m \<and> load_fails env looseCachePath)"

definition ex_loaded :: "(nat, nat) CTextureManagerImpl" where
  "ex_loaded = snd (TryLoad (ex_env Map.empty (\<lambda>p. 7)) (ex_in_state UNLOADED) 1)"

text \<open>
  The outcome of a scan of the cache, said without the scan: \<open>it\<close> is the first entry
  in iteration order whose state is \<open>s\<close>, or no entry is in state \<open>s\<close>.
\<close>

definition first_in_state :: "(ptr \<Rightarrow> CTexture) \<Rightarrow> State \<Rightarrow> ptr list \<Rightarrow> ptr \<Rightarrow> bool" where
  "first_in_state h s xs it =
     (\<exists>ys zs. xs = ys @ it # zs \<and> m_State (h it) = s \<and> (\<forall>b \<in> set ys. m_State (h b) \<noteq> s))"

definition none_in_state :: "(ptr \<Rightarrow> CTexture) \<Rightarrow> State \<Rightarrow> ptr list \<Rightarrow> bool" where
  "none_in_state h s xs = (\<forall>b \<in> set xs. m_State (h b) \<noteq> s)"

text \<open>
  A manager with two textures, \<open>a.png\<close> at address 1 and \<open>b.png\<close> at address 2, in
  given states; the same with a completed job for the first texture waiting to be polled,
  and with a job for the first texture submitted and not yet finished.
\<close>

definition ex_manager2 :: "(nat, nat) CTextureManagerImpl" where
  "ex_manager2 = snd (CreateTexture ex_manager1 (ex_key ''b.png'' 1))"

definition ex_two :: "State \<Rightarrow> State \<Rightarrow> (nat, nat) CTextureManagerImpl" where
  "ex_two s1 s2 = upd 2 (set_state s2) (upd 1 (set_state s1) ex_manager2)"

definition ex_polled :: "State \<Rightarrow> State \<Rightarrow> bool \<Rightarrow> (nat, nat) CTextureManagerImpl" where
  "ex_polled s1 s2 ok =
     (ex_two s1 s2)\<lparr>m_TextureConverter :=
        \<lparr>m_RequestQueue = [], m_ResultQueue = [(1, [''cache'', ''art'', ''a.png.0.dds''], ok)]\<rparr>\<rparr>"

definition ex_busy :: "State \<Rightarrow> State \<Rightarrow> (nat, nat) CTextureManagerImpl" where
  "ex_busy s1 s2 =
     (ex_two s1 s2)\<lparr>m_TextureConverter :=
        \<lparr>m_RequestQueue = [\<lparr>req_texture = 1, req_src = ex_src,
                             req_dest = [''cache'', ''art'', ''a.png.0.dds''], req_settings = 0\<rparr>],
         m_ResultQueue = []\<rparr>\<rparr>"

text \<open>
  The managers that the operations can produce from a newly constructed one; the
  conversion worker finishing the job at the head of the request queue is one of the
  steps.
\<close>

inductive reachable :: "('f, 's) CTextureManagerImpl \<Rightarrow> bool" where
  init: "reachable (new_CTextureManagerImpl env disableGL errorProps)"
| create: "reachable m \<Longrightarrow> reachable (snd (CreateTexture m props))"
| tryload: "reachable m \<Longrightarrow> reachable (snd (TryLoad env m this))"
| prefetch: "reachable m \<Longrightarrow> reachable (Prefetch m this)"
| progress: "reachable m \<Longrightarrow> reachable (snd (MakeProgress env m))"
| reload: "reachable m \<Longrightarrow> reachable (ReloadChangedFile m path)"
| worker: "reachable m \<Longrightarrow>
     reachable (m\<lparr>m_TextureConverter := worker_finish ok (m_TextureConverter m)\<rparr>)"

text \<open>
  \<open>evolves m m'\<close>: the manager \<open>m'\<close> comes from \<open>m\<close> by any number of operations and
  worker steps. \<open>self_inv\<close>: every cached entry is registered.
\<close>

inductive evolves :: "('f, 's) CTextureManagerImpl \<Rightarrow> ('f, 's) CTextureManagerImpl \<Rightarrow> bool" where
  same: "evolves m m"
| create: "evolves m m' \<Longrightarrow> evolves m (snd (CreateTexture m' props))"
| tryload: "evolves m m' \<Longrightarrow> evolves m (snd (TryLoad env m' this))"
| prefetch: "evolves m m' \<Longrightarrow> evolves m (Prefetch m' this)"
| progress: "evolves m m' \<Longrightarrow> evolves m (snd (MakeProgress env m'))"
| reload: "evolves m m' \<Longrightarrow> evolves m (ReloadChangedFile m' path)"
| worker: "evolves m m' \<Longrightarrow>
     evolves m (m'\<lparr>m_TextureConverter := worker_finish ok (m_TextureConverter m')\<rparr>)"


text \<open>
  Apart from \<open>CreateTexture\<close>, no operation touches the cache, the allocation frontier,
  the set of live objects, or the properties and the self pointer of any object.
\<close>

definition same_frame :: "('f, 's) CTextureManagerImpl \<Rightarrow> ('f, 's) CTextureManagerImpl \<Rightarrow> bool" where
  "same_frame m m' =
     (m_TextureCache m' = m_TextureCache m \<and> brk m' = brk m \<and> live m' = live m \<and>
      (\<forall>a. m_Properties (heap m' a) = m_Properties (heap m a) \<and>
           m_Self (heap m' a) = m_Self (heap m a)))"

text \<open>From \<open>m\<close> to \<open>m'\<close> the cache has only grown and the objects allocated in \<open>m\<close> have kept their properties.\<close>

definition grows :: "('f, 's) CTextureManagerImpl \<Rightarrow> ('f, 's) CTextureManagerImpl \<Rightarrow> bool" where
  "grows m m' =
     (set (m_TextureCache m) \<subseteq> set (m_TextureCache m') \<and> brk m \<le> brk m' \<and>
      (\<forall>a. a < brk m \<longrightarrow> m_Properties (heap m' a) = m_Properties (heap m a)))"

text \<open>
  The outcome of the cache load of section 4.3 of the specification, said from the files
  alone: the load resolves the entry when the archive cache is usable, or the source file
  is absent (the entry then gets the error handle), or the loose cache file exists; it
  misses when the source exists, the archive cache is unusable and there is no loose
  cache file. \<open>loaded_handle\<close> is the handle an entry holds after the load of a file,
  \<open>cache_load_handle\<close> the handle it holds after the cache load.
\<close>

definition cache_load_succeeds :: "('f, 's) Env \<Rightarrow> ('f, 's) CTextureManagerImpl \<Rightarrow> ptr \<Rightarrow> bool" where
  "cache_load_succeeds env m this =
     (CanUseArchiveCache env (m_Path (m_Properties (heap m this)))
        (archive_cache_path (m_Path (m_Properties (heap m this)))) \<or>
      GetFileInfo env (m_Path (m_Properties (heap m this))) = None \<or>
      GetFileInfo env (fst (LooseCachePath env m this)) \<noteq> None)"

definition loaded_handle :: "('f, 's) Env \<Rightarrow> ('f, 's) CTextureManagerImpl \<Rightarrow> ptr \<Rightarrow> VfsPath \<Rightarrow> Handle" where
  "loaded_handle env m this path =
     (if m_DisableGL m then m_Handle (heap m this)
      else if ogl_tex_load env path \<le> 0 then m_ErrorHandle m
      else if ogl_tex_upload env (ogl_tex_load env path) < 0 then m_ErrorHandle m
      else ogl_tex_load env path)"

definition cache_load_handle :: "('f, 's) Env \<Rightarrow> ('f, 's) CTextureManagerImpl \<Rightarrow> ptr \<Rightarrow> Handle" where
  "cache_load_handle env m this =
     (if CanUseArchiveCache env (m_Path (m_Properties (heap m this)))
           (archive_cache_path (m_Path (m_Properties (heap m this))))
      then loaded_handle env m this (archive_cache_path (m_Path (m_Properties (heap m this))))
      else if GetFileInfo env (m_Path (m_Properties (heap m this))) = None then m_ErrorHandle m
      else if GetFileInfo env (fst (LooseCachePath env m this)) \<noteq> None
      then loaded_handle env m this (fst (LooseCachePath env m this))
      else m_Handle (heap m this))"

text \<open>
  The loose cache path of the example source at modification time 100, and a file
  system that holds the source, a stale archive cache and that loose cache file.
\<close>

definition ex_loose :: VfsPath where
  "ex_loose = [''cache'', ''art'', ''a.png.1515151515151515.dds'']"

definition ex_files_loose :: "VfsPath \<rightharpoonup> nat \<times> int" where
  "ex_files_loose = (ex_files 100 97)(ex_loose \<mapsto> (0, 100))"


section \<open>Basic facts about the store\<close>

lemma upd_fields [simp]:
  "m_DisableGL (upd a f m) = m_DisableGL m"
  "m_TextureConverter (upd a f m) = m_TextureConverter m"
  "m_DefaultHandle (upd a f m) = m_DefaultHandle m"
  "m_ErrorHandle (upd a f m) = m_ErrorHandle m"
  "m_ErrorTexture (upd a f m) = m_ErrorTexture m"
  "m_TextureCache (upd a f m) = m_TextureCache m"
  "m_HotloadFiles (upd a f m) = m_HotloadFiles m"
  "m_SettingsFiles (upd a f m) = m_SettingsFiles m"
  "live (upd a f m) = live m"
  "brk (upd a f m) = brk m"
  by (simp_all add: upd_def)

lemma heap_upd [simp]: "heap (upd a f m) b = (if b = a then f (heap m a) else heap m b)"
  by (simp add: upd_def)

lemma SetHandle_fields [simp]:
  "m_Handle (SetHandle h t) = h"
  "m_State (SetHandle h t) = m_State t"
  "m_Properties (SetHandle h t) = m_Properties t"
  "m_Self (SetHandle h t) = m_Self t"
  "m_BaseColour (SetHandle h t) = m_BaseColour t"
  by (simp_all add: SetHandle_def)

lemma set_state_fields [simp]:
  "m_Handle (set_state s t) = m_Handle t"
  "m_State (set_state s t) = s"
  "m_Properties (set_state s t) = m_Properties t"
  "m_Self (set_state s t) = m_Self t"
  "m_BaseColour (set_state s t) = m_BaseColour t"
  by (simp_all add: set_state_def)

lemma ex_manager_fields:
  "m_DisableGL ex_manager = False"
  "m_TextureConverter ex_manager = \<lparr>m_RequestQueue = [], m_ResultQueue = []\<rparr>"
  "m_DefaultHandle ex_manager = 1"
  "m_ErrorHandle ex_manager = 2"
  "m_ErrorTexture ex_manager = Some 0"
  "m_TextureCache ex_manager = []"
  "m_HotloadFiles ex_manager = Map.empty"
  "m_SettingsFiles ex_manager = Map.empty"
  "live ex_manager = {0}"
  "brk ex_manager = Suc 0"
  "heap ex_manager = empty_heap(0 := (new_CTexture 2 (ex_key ''(error texture)'' 1))
                                       \<lparr>m_State := LOADED, m_Self := Some 0\<rparr>)"
  by (simp_all add: ex_manager_def new_CTextureManagerImpl_def ex_env_def Let_def)

section \<open>Prefetch\<close>

text \<open>
  C10. \<open>Prefetch\<close> on an entry whose state is not \<open>UNLOADED\<close> changes nothing at all:
  the state and the handle of the entry stay, and so does every other part of the manager,
  the conversion scheduler included. A loaded entry is not downgraded, an entry escalated
  to high priority is not demoted and a conversion in flight is not disturbed.
\<close>

theorem Prefetch_frame:
  "m_State (heap m this) \<noteq> UNLOADED \<Longrightarrow> Prefetch m this = m"
  by (simp add: Prefetch_def)

theorem Prefetch_frame_witness:
  "m_State (heap ex_manager 0) \<noteq> UNLOADED \<and> Prefetch ex_manager 0 = ex_manager"
proof -
  have h: "m_State (heap ex_manager 0) \<noteq> UNLOADED"
    by (simp add: ex_manager_fields)
  show ?thesis using h Prefetch_frame [OF h] by simp
qed

section \<open>CanUseArchiveCache\<close>

text \<open>
  C3. The decision of \<open>CanUseArchiveCache\<close>, case by case in the order of its checks:
  false without an archive cache; true with an archive cache and no source; false when
  both exist and the archive cache has the strictly lower priority; false when both
  exist, both file informations are available and the source is newer by strictly more
  than 2 seconds; true in every other case, so also for a gap of exactly 2 seconds.
\<close>

theorem CanUseArchiveCache_table:
  "CanUseArchiveCache env sourcePath archiveCachePath =
     (if GetFilePriority env archiveCachePath = None then False
      else if GetFilePriority env sourcePath = None then True
      else if the (GetFilePriority env archiveCachePath) < the (GetFilePriority env sourcePath)
        then False
      else if GetFileInfo env sourcePath \<noteq> None \<and> GetFileInfo env archiveCachePath \<noteq> None \<and>
              MTime (the (GetFileInfo env sourcePath))
                - MTime (the (GetFileInfo env archiveCachePath)) > 2
        then False
      else True) \<and>
   (\<forall>pa ps si ai.
      GetFilePriority env archiveCachePath = Some pa \<and> GetFilePriority env sourcePath = Some ps \<and>
      \<not> pa < ps \<and> GetFileInfo env sourcePath = Some si \<and>
      GetFileInfo env archiveCachePath = Some ai \<and> MTime si - MTime ai = 2 \<longrightarrow>
        CanUseArchiveCache env sourcePath archiveCachePath)"
  by (simp add: CanUseArchiveCache_def difftime_def Let_def split: option.splits)

theorem CanUseArchiveCache_table_witness:
  "CanUseArchiveCache (ex_env (ex_files 99 97) (\<lambda>p. 7)) ex_src ex_archive \<and>
   \<not> CanUseArchiveCache (ex_env (ex_files 100 97) (\<lambda>p. 7)) ex_src ex_archive \<and>
   CanUseArchiveCache (ex_env [ex_archive \<mapsto> (0, 97)] (\<lambda>p. 7)) ex_src ex_archive \<and>
   \<not> CanUseArchiveCache (ex_env [ex_src \<mapsto> (5, 97), ex_archive \<mapsto> (2, 97)] (\<lambda>p. 7)) ex_src ex_archive \<and>
   \<not> CanUseArchiveCache (ex_env [ex_src \<mapsto> (0, 97)] (\<lambda>p. 7)) ex_src ex_archive"
  using CanUseArchiveCache_table [of "ex_env (ex_files 99 97) (\<lambda>p. 7)" ex_src ex_archive]
    CanUseArchiveCache_table [of "ex_env (ex_files 100 97) (\<lambda>p. 7)" ex_src ex_archive]
    CanUseArchiveCache_table [of "ex_env [ex_archive \<mapsto> (0, 97)] (\<lambda>p. 7)" ex_src ex_archive]
    CanUseArchiveCache_table [of "ex_env [ex_src \<mapsto> (5, 97), ex_archive \<mapsto> (2, 97)] (\<lambda>p. 7)" ex_src ex_archive]
    CanUseArchiveCache_table [of "ex_env [ex_src \<mapsto> (0, 97)] (\<lambda>p. 7)" ex_src ex_archive]
  by (simp add: ex_env_def ex_files_def ex_src_def ex_archive_def)

section \<open>ReloadChangedFile\<close>

lemma reload_one_frame [simp]:
  "m_HotloadFiles (reload_one it m) = m_HotloadFiles m"
  "live (reload_one it m) = live m"
  "m_SettingsFiles (reload_one it m) = m_SettingsFiles m"
  "m_TextureCache (reload_one it m) = m_TextureCache m"
  "m_TextureConverter (reload_one it m) = m_TextureConverter m"
  "m_DefaultHandle (reload_one it m) = m_DefaultHandle m"
  "m_ErrorHandle (reload_one it m) = m_ErrorHandle m"
  "m_DisableGL (reload_one it m) = m_DisableGL m"
  "brk (reload_one it m) = brk m"
  by (simp_all add: reload_one_def lock_weak_def)

lemma fold_reload_one_frame [simp]:
  "m_HotloadFiles (fold reload_one xs m) = m_HotloadFiles m"
  "live (fold reload_one xs m) = live m"
  "m_SettingsFiles (fold reload_one xs m) = m_SettingsFiles m"
  "m_TextureCache (fold reload_one xs m) = m_TextureCache m"
  "m_TextureConverter (fold reload_one xs m) = m_TextureConverter m"
  "m_DefaultHandle (fold reload_one xs m) = m_DefaultHandle m"
  "m_ErrorHandle (fold reload_one xs m) = m_ErrorHandle m"
  "m_DisableGL (fold reload_one xs m) = m_DisableGL m"
  "brk (fold reload_one xs m) = brk m"
  by (induction xs arbitrary: m; simp)+

lemma reset_idem:
  "SetHandle d (set_state UNLOADED (SetHandle d (set_state UNLOADED t))) =
   SetHandle d (set_state UNLOADED t)"
  by (simp add: SetHandle_def set_state_def)

lemma heap_reload_one:
  "heap (reload_one it m) a =
     (if a = it \<and> it \<in> live m then SetHandle (m_DefaultHandle m) (set_state UNLOADED (heap m a))
      else heap m a)"
  by (simp add: reload_one_def lock_weak_def)

lemma heap_fold_reload_one:
  "heap (fold reload_one xs m) a =
     (if a \<in> set xs \<and> a \<in> live m
      then SetHandle (m_DefaultHandle m) (set_state UNLOADED (heap m a))
      else heap m a)"
proof (induction xs arbitrary: m)
  case Nil
  then show ?case by simp
next
  case (Cons x xs)
  show ?case
    by (auto simp: Cons.IH heap_reload_one reset_idem)
qed


section \<open>CreateTexture\<close>

lemma cmp_equiv_iff:
  "cmp_equiv a b =
     (m_Path a = m_Path b \<and> m_Filter a = m_Filter b \<and> m_Wrap a = m_Wrap b \<and> m_Aniso a = m_Aniso b)"
  by (auto simp: cmp_equiv_def TextureCacheCmp_def)

lemma cmp_equiv_eq: "cmp_equiv a b = (a = (b :: CTextureProperties))"
  by (cases a; cases b) (simp add: cmp_equiv_iff)

lemma cache_find_Some:
  "cache_find h k xs = Some b \<Longrightarrow> b \<in> set xs \<and> m_Properties (h b) = k"
  by (induction xs) (auto simp: cmp_equiv_eq split: if_splits)

lemma cache_find_None:
  "cache_find h k xs = None \<Longrightarrow> k \<notin> set (map (\<lambda>a. m_Properties (h a)) xs)"
  by (induction xs) (auto simp: cmp_equiv_eq split: if_splits)

lemma cache_find_distinct:
  "distinct (map (\<lambda>a. m_Properties (h a)) xs) \<Longrightarrow> b \<in> set xs \<Longrightarrow>
   cache_find h (m_Properties (h b)) xs = Some b"
proof (induction xs)
  case Nil
  then show ?case by simp
next
  case (Cons a xs)
  show ?case
  proof (cases "b = a")
    case True
    then show ?thesis by (simp add: cmp_equiv_eq)
  next
    case False
    then have mem: "b \<in> set xs" using Cons.prems by simp
    then have "m_Properties (h b) \<noteq> m_Properties (h a)"
      using Cons.prems(1) by (auto simp: image_iff)
    then show ?thesis using Cons mem by (simp add: cmp_equiv_eq)
  qed
qed

lemma cache_find_cong:
  "(\<And>b. b \<in> set xs \<Longrightarrow> h b = h' b) \<Longrightarrow> cache_find h k xs = cache_find h' k xs"
  by (induction xs) auto

lemma cache_insert_set: "set (cache_insert h a xs) \<subseteq> insert a (set xs)"
  by (induction xs) auto

lemma cache_insert_mem:
  "m_Properties (h a) \<notin> set (map (\<lambda>a. m_Properties (h a)) xs) \<Longrightarrow> a \<in> set (cache_insert h a xs)"
proof (induction xs)
  case Nil
  then show ?case by simp
next
  case (Cons b bs)
  have "\<not> cmp_equiv (m_Properties (h a)) (m_Properties (h b))"
    using Cons.prems by (simp add: cmp_equiv_eq)
  then show ?case using Cons by (auto simp: cmp_equiv_def)
qed

lemma cache_insert_keys:
  "set (map (\<lambda>a. m_Properties (h a)) (cache_insert h a xs))
     \<subseteq> insert (m_Properties (h a)) (set (map (\<lambda>a. m_Properties (h a)) xs))"
  using cache_insert_set [of h a xs] by auto

lemma cache_insert_distinct:
  "distinct (map (\<lambda>a. m_Properties (h a)) xs) \<Longrightarrow>
   m_Properties (h a) \<notin> set (map (\<lambda>a. m_Properties (h a)) xs) \<Longrightarrow>
   distinct (map (\<lambda>a. m_Properties (h a)) (cache_insert h a xs))"
proof (induction xs)
  case Nil
  then show ?case by simp
next
  case (Cons b bs)
  show ?case
  proof (cases "TextureCacheCmp (m_Properties (h a)) (m_Properties (h b))")
    case True
    then show ?thesis using Cons.prems by auto
  next
    case False
    note nlt = this
    show ?thesis
    proof (cases "TextureCacheCmp (m_Properties (h b)) (m_Properties (h a))")
      case True
      have d: "distinct (map (\<lambda>a. m_Properties (h a)) (cache_insert h a bs))"
        using Cons by simp
      have "m_Properties (h b) \<notin> set (map (\<lambda>a. m_Properties (h a)) (cache_insert h a bs))"
        using cache_insert_keys [of h a bs] Cons.prems by auto
      then show ?thesis using nlt True d by simp
    next
      case False
      then show ?thesis using nlt Cons.prems by simp
    qed
  qed
qed

lemma map_props_cong:
  "(\<And>b. b \<in> set xs \<Longrightarrow> h b = h' b) \<Longrightarrow>
   map (\<lambda>a. m_Properties (h a)) xs = map (\<lambda>a. m_Properties (h' a)) xs"
  by simp

lemma CreateTexture_heap:
  "CreateTexture m k = (p, m') \<Longrightarrow> a < brk m \<Longrightarrow> heap m' a = heap m a"
  by (auto simp: CreateTexture_def Let_def split: option.splits)

lemma CreateTexture_lookup:
  assumes inv: "cache_inv m" and mem: "p \<in> set (m_TextureCache m)"
  shows "CreateTexture m (m_Properties (heap m p)) = (p, m)"
proof -
  let ?k = "m_Properties (heap m p)"
  let ?h = "(heap m)(brk m := new_CTexture (m_DefaultHandle m) ?k)"
  have same: "\<And>b. b \<in> set (m_TextureCache m) \<Longrightarrow> ?h b = heap m b"
    using inv by (auto simp: cache_inv_def)
  have "cache_find ?h ?k (m_TextureCache m) = cache_find (heap m) ?k (m_TextureCache m)"
    by (rule cache_find_cong) (rule same)
  also have "\<dots> = Some p"
    using inv mem by (simp add: cache_inv_def cache_find_distinct)
  finally show ?thesis by (simp add: CreateTexture_def Let_def)
qed

lemma CreateTexture_post:
  assumes inv: "cache_inv m" and ct: "CreateTexture m k = (p, m')"
  shows "cache_inv m' \<and> p \<in> set (m_TextureCache m') \<and> m_Properties (heap m' p) = k"
proof -
  let ?t = "brk m"
  let ?h = "(heap m)(?t := new_CTexture (m_DefaultHandle m) k)"
  let ?h' = "?h(?t := (?h ?t)\<lparr>m_Self := Some ?t\<rparr>)"
  let ?xs = "m_TextureCache m"
  have same: "\<And>b. b \<in> set ?xs \<Longrightarrow> ?h b = heap m b"
    using inv by (auto simp: cache_inv_def)
  have same': "\<And>b. b \<in> set ?xs \<Longrightarrow> ?h' b = heap m b"
    using inv by (auto simp: cache_inv_def)
  show ?thesis
  proof (cases "cache_find ?h k ?xs")
    case (Some it)
    then have eq: "p = it" "m' = m" using ct by (simp_all add: CreateTexture_def Let_def)
    have "it \<in> set ?xs" "m_Properties (?h it) = k"
      using cache_find_Some [OF Some] by simp_all
    then show ?thesis using inv eq same [of it] by simp
  next
    case None
    then have p: "p = ?t"
      and m': "m' = m\<lparr>heap := ?h', live := insert ?t (live m), brk := Suc ?t,
                   m_TextureCache := cache_insert ?h' ?t ?xs,
                   m_HotloadFiles := hotload_insert (m_Path k) ?t (m_HotloadFiles m)\<rparr>"
      using ct by (auto simp: CreateTexture_def Let_def)
    have keys: "map (\<lambda>a. m_Properties (?h' a)) ?xs = map (\<lambda>a. m_Properties (heap m a)) ?xs"
      by (rule map_props_cong) (rule same')
    have keys0: "map (\<lambda>a. m_Properties (?h a)) ?xs = map (\<lambda>a. m_Properties (heap m a)) ?xs"
      by (rule map_props_cong) (rule same)
    have kt: "m_Properties (?h' ?t) = k" by (simp add: new_CTexture_def)
    have fresh: "k \<notin> set (map (\<lambda>a. m_Properties (heap m a)) ?xs)"
      using cache_find_None [OF None] unfolding keys0 .
    have fresh': "m_Properties (?h' ?t) \<notin> set (map (\<lambda>a. m_Properties (?h' a)) ?xs)"
      unfolding keys kt by (rule fresh)
    have d: "distinct (map (\<lambda>a. m_Properties (?h' a)) ?xs)"
      unfolding keys using inv by (simp add: cache_inv_def)
    have 1: "distinct (map (\<lambda>a. m_Properties (?h' a)) (cache_insert ?h' ?t ?xs))"
      by (rule cache_insert_distinct [OF d fresh'])
    have 2: "?t \<in> set (cache_insert ?h' ?t ?xs)"
      by (rule cache_insert_mem [OF fresh'])
    have 3: "\<forall>a \<in> set (cache_insert ?h' ?t ?xs). a < Suc ?t"
      using cache_insert_set [of ?h' ?t ?xs] inv by (auto simp: cache_inv_def less_Suc_eq)
    show ?thesis
      unfolding p m' cache_inv_def using 1 2 3 kt by simp
  qed
qed

lemma cache_inv_new: "cache_inv (new_CTextureManagerImpl env disableGL errorProps)"
  by (simp add: cache_inv_def new_CTextureManagerImpl_def Let_def)

section \<open>What the loading functions leave alone\<close>

lemma LoadTexture_fields [simp]:
  "m_DisableGL (LoadTexture env m a p) = m_DisableGL m"
  "m_TextureConverter (LoadTexture env m a p) = m_TextureConverter m"
  "m_DefaultHandle (LoadTexture env m a p) = m_DefaultHandle m"
  "m_ErrorHandle (LoadTexture env m a p) = m_ErrorHandle m"
  "m_ErrorTexture (LoadTexture env m a p) = m_ErrorTexture m"
  "m_TextureCache (LoadTexture env m a p) = m_TextureCache m"
  "m_HotloadFiles (LoadTexture env m a p) = m_HotloadFiles m"
  "m_SettingsFiles (LoadTexture env m a p) = m_SettingsFiles m"
  "live (LoadTexture env m a p) = live m"
  "brk (LoadTexture env m a p) = brk m"
  by (simp_all add: LoadTexture_def Let_def)

lemma LoadTexture_other: "b \<noteq> a \<Longrightarrow> heap (LoadTexture env m a p) b = heap m b"
  by (simp add: LoadTexture_def Let_def)

lemma LoadTexture_same [simp]:
  "m_State (heap (LoadTexture env m a p) b) = m_State (heap m b)"
  "m_Properties (heap (LoadTexture env m a p) b) = m_Properties (heap m b)"
  "m_Self (heap (LoadTexture env m a p) b) = m_Self (heap m b)"
  by (simp_all add: LoadTexture_def Let_def)

lemma LoadTexture_handle:
  "m_Handle (heap (LoadTexture env m a p) a) =
     (if m_DisableGL m then m_Handle (heap m a)
      else if ogl_tex_load env p \<le> 0 then m_ErrorHandle m
      else if ogl_tex_upload env (ogl_tex_load env p) < 0 then m_ErrorHandle m
      else ogl_tex_load env p)"
  by (simp add: LoadTexture_def Let_def)

lemma GetSettingsFile_fields [simp]:
  "m_DisableGL (snd (GetSettingsFile env m p)) = m_DisableGL m"
  "m_TextureConverter (snd (GetSettingsFile env m p)) = m_TextureConverter m"
  "m_DefaultHandle (snd (GetSettingsFile env m p)) = m_DefaultHandle m"
  "m_ErrorHandle (snd (GetSettingsFile env m p)) = m_ErrorHandle m"
  "m_ErrorTexture (snd (GetSettingsFile env m p)) = m_ErrorTexture m"
  "m_TextureCache (snd (GetSettingsFile env m p)) = m_TextureCache m"
  "m_HotloadFiles (snd (GetSettingsFile env m p)) = m_HotloadFiles m"
  "heap (snd (GetSettingsFile env m p)) = heap m"
  "live (snd (GetSettingsFile env m p)) = live m"
  "brk (snd (GetSettingsFile env m p)) = brk m"
  by (simp_all add: GetSettingsFile_def Let_def split: option.splits)

lemma settings_loop_fields [simp]:
  "m_DisableGL (snd (settings_loop env a cs p fs m)) = m_DisableGL m"
  "m_TextureConverter (snd (settings_loop env a cs p fs m)) = m_TextureConverter m"
  "m_DefaultHandle (snd (settings_loop env a cs p fs m)) = m_DefaultHandle m"
  "m_ErrorHandle (snd (settings_loop env a cs p fs m)) = m_ErrorHandle m"
  "m_ErrorTexture (snd (settings_loop env a cs p fs m)) = m_ErrorTexture m"
  "m_TextureCache (snd (settings_loop env a cs p fs m)) = m_TextureCache m"
  "heap (snd (settings_loop env a cs p fs m)) = heap m"
  "live (snd (settings_loop env a cs p fs m)) = live m"
  "brk (snd (settings_loop env a cs p fs m)) = brk m"
  by (induction cs arbitrary: p fs m; simp add: Let_def split_beta)+

lemma GetConverterSettings_fields [simp]:
  "m_DisableGL (snd (GetConverterSettings env m a)) = m_DisableGL m"
  "m_TextureConverter (snd (GetConverterSettings env m a)) = m_TextureConverter m"
  "m_DefaultHandle (snd (GetConverterSettings env m a)) = m_DefaultHandle m"
  "m_ErrorHandle (snd (GetConverterSettings env m a)) = m_ErrorHandle m"
  "m_ErrorTexture (snd (GetConverterSettings env m a)) = m_ErrorTexture m"
  "m_TextureCache (snd (GetConverterSettings env m a)) = m_TextureCache m"
  "heap (snd (GetConverterSettings env m a)) = heap m"
  "live (snd (GetConverterSettings env m a)) = live m"
  "brk (snd (GetConverterSettings env m a)) = brk m"
  by (simp_all add: GetConverterSettings_def Let_def split_beta)

lemma LooseCachePath_fields [simp]:
  "m_DisableGL (snd (LooseCachePath env m a)) = m_DisableGL m"
  "m_TextureConverter (snd (LooseCachePath env m a)) = m_TextureConverter m"
  "m_DefaultHandle (snd (LooseCachePath env m a)) = m_DefaultHandle m"
  "m_ErrorHandle (snd (LooseCachePath env m a)) = m_ErrorHandle m"
  "m_ErrorTexture (snd (LooseCachePath env m a)) = m_ErrorTexture m"
  "m_TextureCache (snd (LooseCachePath env m a)) = m_TextureCache m"
  "heap (snd (LooseCachePath env m a)) = heap m"
  "live (snd (LooseCachePath env m a)) = live m"
  "brk (snd (LooseCachePath env m a)) = brk m"
  by (simp_all add: LooseCachePath_def Let_def split_beta split: option.splits)

lemma TryLoadingCached_fields [simp]:
  "m_DisableGL (snd (TryLoadingCached env m a)) = m_DisableGL m"
  "m_TextureConverter (snd (TryLoadingCached env m a)) = m_TextureConverter m"
  "m_DefaultHandle (snd (TryLoadingCached env m a)) = m_DefaultHandle m"
  "m_ErrorHandle (snd (TryLoadingCached env m a)) = m_ErrorHandle m"
  "m_ErrorTexture (snd (TryLoadingCached env m a)) = m_ErrorTexture m"
  "m_TextureCache (snd (TryLoadingCached env m a)) = m_TextureCache m"
  "live (snd (TryLoadingCached env m a)) = live m"
  "brk (snd (TryLoadingCached env m a)) = brk m"
  by (simp_all add: TryLoadingCached_def Let_def split_beta)

lemma TryLoadingCached_other:
  "b \<noteq> a \<Longrightarrow> heap (snd (TryLoadingCached env m a)) b = heap m b"
  by (simp add: TryLoadingCached_def Let_def split_beta LoadTexture_other)

lemma TryLoadingCached_same [simp]:
  "m_State (heap (snd (TryLoadingCached env m a)) b) = m_State (heap m b)"
  "m_Properties (heap (snd (TryLoadingCached env m a)) b) = m_Properties (heap m b)"
  "m_Self (heap (snd (TryLoadingCached env m a)) b) = m_Self (heap m b)"
  by (simp_all add: TryLoadingCached_def Let_def split_beta)

lemma ConvertTexture_fields [simp]:
  "m_DisableGL (ConvertTexture env m a) = m_DisableGL m"
  "m_DefaultHandle (ConvertTexture env m a) = m_DefaultHandle m"
  "m_ErrorHandle (ConvertTexture env m a) = m_ErrorHandle m"
  "m_ErrorTexture (ConvertTexture env m a) = m_ErrorTexture m"
  "m_TextureCache (ConvertTexture env m a) = m_TextureCache m"
  "heap (ConvertTexture env m a) = heap m"
  "live (ConvertTexture env m a) = live m"
  "brk (ConvertTexture env m a) = brk m"
  by (simp_all add: ConvertTexture_def Let_def split_beta)

lemma ConvertTexture_queue:
  "m_RequestQueue (m_TextureConverter (ConvertTexture env m a)) =
     m_RequestQueue (m_TextureConverter m) @
       [\<lparr>req_texture = a, req_src = m_Path (m_Properties (heap m a)),
         req_dest = fst (LooseCachePath env m a),
         req_settings = fst (GetConverterSettings env (snd (LooseCachePath env m a)) a)\<rparr>]"
  "m_ResultQueue (m_TextureConverter (ConvertTexture env m a)) =
     m_ResultQueue (m_TextureConverter m)"
  by (simp_all add: ConvertTexture_def Let_def split_beta Submit_def)

section \<open>TryLoad, invalidation and failures\<close>


lemma ex_manager1_fields:
  "m_DisableGL ex_manager1 = False"
  "m_TextureConverter ex_manager1 = \<lparr>m_RequestQueue = [], m_ResultQueue = []\<rparr>"
  "m_DefaultHandle ex_manager1 = 1"
  "m_ErrorHandle ex_manager1 = 2"
  "m_TextureCache ex_manager1 = [Suc 0]"
  "m_HotloadFiles ex_manager1 = [ex_src \<mapsto> [Suc 0]]"
  "m_SettingsFiles ex_manager1 = Map.empty"
  "live ex_manager1 = {0, Suc 0}"
  "brk ex_manager1 = 2"
  "heap ex_manager1 (Suc 0) = \<lparr>m_Handle = 1, m_BaseColour = 0, m_State = UNLOADED,
      m_Properties = ex_key ''a.png'' 1, m_Self = Some 1\<rparr>"
  by (auto simp: ex_manager1_def CreateTexture_def Let_def ex_manager_fields new_CTexture_def
      hotload_insert_def ex_key_def ex_src_def)

lemma registered_iff: "registered m a = (m_Self (heap m a) = Some a \<and> a \<in> live m)"
  by (auto simp: registered_def lock_weak_def split: option.splits)

lemma TryLoad_load:
  assumes "registered m this"
    and "m_State (heap m this) = UNLOADED \<or> m_State (heap m this) = PREFETCH_NEEDS_LOADING"
  shows "TryLoad env m this =
           (fst (TryLoadingCached env m this),
            upd this (set_state (if fst (TryLoadingCached env m this) then LOADED
                                 else HIGH_NEEDS_CONVERTING))
              (snd (TryLoadingCached env m this)))"
  using assms by (auto simp: TryLoad_def registered_def Let_def split_beta)

lemma TryLoad_escalate:
  assumes "registered m this" and "m_State (heap m this) = PREFETCH_NEEDS_CONVERTING"
  shows "TryLoad env m this = (False, upd this (set_state HIGH_NEEDS_CONVERTING) m)"
  using assms by (simp add: TryLoad_def registered_def Let_def)

lemma TryLoad_idle:
  assumes "m_State (heap m this) \<noteq> UNLOADED" "m_State (heap m this) \<noteq> PREFETCH_NEEDS_LOADING"
    "m_State (heap m this) \<noteq> PREFETCH_NEEDS_CONVERTING"
  shows "TryLoad env m this = (m_State (heap m this) = LOADED, m)"
  using assms by (simp add: TryLoad_def Let_def)

lemma TryLoad_result:
  "fst (TryLoad env m this) = (m_State (heap (snd (TryLoad env m this)) this) = LOADED)"
  by (simp add: TryLoad_def Let_def)

lemma ex_in_state_fields:
  "m_State (heap (ex_in_state s) (Suc 0)) = s"
  "m_Self (heap (ex_in_state s) (Suc 0)) = Some (Suc 0)"
  "live (ex_in_state s) = {0, Suc 0}"
  "m_ErrorHandle (ex_in_state s) = 2"
  "m_DefaultHandle (ex_in_state s) = 1"
  "m_DisableGL (ex_in_state s) = False"
  "m_Properties (heap (ex_in_state s) (Suc 0)) = ex_key ''a.png'' 1"
  by (simp_all add: ex_in_state_def ex_manager1_fields)

lemma ex_registered: "registered (ex_in_state s) (Suc 0)"
  by (simp add: registered_def lock_weak_def ex_in_state_fields)

lemma ex_missing_source:
  "TryLoadingCached (ex_env Map.empty load) (ex_in_state s) (Suc 0) =
     (True, upd (Suc 0) (SetHandle 2) (ex_in_state s))"
  by (simp add: TryLoadingCached_def CanUseArchiveCache_def Let_def ex_env_def
      ex_in_state_fields)

text \<open>
  C6. \<open>ReloadChangedFile\<close> erases the settings file cached under the path and leaves
  the other cached settings files, the texture cache and the set of live objects as they
  are. Every live entry registered under the path ends in state \<open>UNLOADED\<close> with the
  default handle, whatever its state was, keeps its properties and its self pointer and
  stays alive; a later \<open>TryLoad\<close> on it runs \<open>TryLoadingCached\<close> again, as on a
  fresh entry.
\<close>

theorem ReloadChangedFile_invalidates:
  "m_SettingsFiles (ReloadChangedFile m path) = (m_SettingsFiles m)(path := None) \<and>
   m_TextureCache (ReloadChangedFile m path) = m_TextureCache m \<and>
   live (ReloadChangedFile m path) = live m \<and>
   (\<forall>files a. m_HotloadFiles m path = Some files \<and> a \<in> set files \<and> a \<in> live m \<longrightarrow>
      m_State (heap (ReloadChangedFile m path) a) = UNLOADED \<and>
      m_Handle (heap (ReloadChangedFile m path) a) = m_DefaultHandle m \<and>
      m_Properties (heap (ReloadChangedFile m path) a) = m_Properties (heap m a) \<and>
      m_Self (heap (ReloadChangedFile m path) a) = m_Self (heap m a) \<and>
      a \<in> live (ReloadChangedFile m path) \<and>
      (registered m a \<longrightarrow>
         (\<forall>env. TryLoad env (ReloadChangedFile m path) a =
            (fst (TryLoadingCached env (ReloadChangedFile m path) a),
             upd a (set_state (if fst (TryLoadingCached env (ReloadChangedFile m path) a)
                               then LOADED else HIGH_NEEDS_CONVERTING))
               (snd (TryLoadingCached env (ReloadChangedFile m path) a))))))"
proof -
  let ?m' = "ReloadChangedFile m path"
  have frame: "m_SettingsFiles ?m' = (m_SettingsFiles m)(path := None)"
    "m_TextureCache ?m' = m_TextureCache m" "live ?m' = live m"
    by (simp_all add: ReloadChangedFile_def Let_def split: option.splits)
  have entry: "heap ?m' a = SetHandle (m_DefaultHandle m) (set_state UNLOADED (heap m a))"
    if "m_HotloadFiles m path = Some files" "a \<in> set files" "a \<in> live m" for files a
    using that by (simp add: ReloadChangedFile_def Let_def heap_fold_reload_one)
  have again: "TryLoad env ?m' a =
            (fst (TryLoadingCached env ?m' a),
             upd a (set_state (if fst (TryLoadingCached env ?m' a)
                               then LOADED else HIGH_NEEDS_CONVERTING))
               (snd (TryLoadingCached env ?m' a)))"
    if h: "m_HotloadFiles m path = Some files" "a \<in> set files" "a \<in> live m"
      and reg: "registered m a" for files a env
  proof -
    have "registered ?m' a"
      using reg entry [OF h] frame(3) by (simp add: registered_iff)
    moreover have "m_State (heap ?m' a) = UNLOADED" using entry [OF h] by simp
    ultimately show ?thesis by (simp add: TryLoad_load)
  qed
  show ?thesis
    using frame entry again by (simp (no_asm_simp))
qed


lemma ex_loaded_eq:
  "ex_loaded = upd (Suc 0) (set_state LOADED) (upd (Suc 0) (SetHandle 2) (ex_in_state UNLOADED))"
  using TryLoad_load [OF ex_registered, of UNLOADED "ex_env Map.empty (\<lambda>p. 7)"]
  by (simp add: ex_loaded_def ex_in_state_fields ex_missing_source)

lemma ex_loaded_fields:
  "m_HotloadFiles ex_loaded ex_src = Some [Suc 0]"
  "live ex_loaded = {0, Suc 0}"
  "m_State (heap ex_loaded (Suc 0)) = LOADED"
  "m_Handle (heap ex_loaded (Suc 0)) = 2"
  "m_Self (heap ex_loaded (Suc 0)) = Some (Suc 0)"
  "m_DefaultHandle ex_loaded = 1"
  by (simp_all add: ex_loaded_eq ex_in_state_fields ex_in_state_def ex_manager1_fields)

theorem ReloadChangedFile_invalidates_witness:
  "m_HotloadFiles ex_loaded ex_src = Some [1] \<and> 1 \<in> live ex_loaded \<and> registered ex_loaded 1 \<and>
   m_State (heap ex_loaded 1) = LOADED \<and> m_Handle (heap ex_loaded 1) = 2 \<and>
   m_State (heap (ReloadChangedFile ex_loaded ex_src) 1) = UNLOADED \<and>
   m_Handle (heap (ReloadChangedFile ex_loaded ex_src) 1) = 1 \<and>
   m_DefaultHandle ex_loaded = 1 \<and>
   fst (TryLoad (ex_env Map.empty (\<lambda>p. 7)) (ReloadChangedFile ex_loaded ex_src) 1) =
     fst (TryLoadingCached (ex_env Map.empty (\<lambda>p. 7)) (ReloadChangedFile ex_loaded ex_src) 1)"
proof -
  have r: "registered ex_loaded (Suc 0)"
    by (simp add: registered_iff ex_loaded_fields)
  show ?thesis
    using r ReloadChangedFile_invalidates [of ex_loaded ex_src]
    by (simp add: ex_loaded_fields)
qed

lemma TryLoadingCached_failure:
  assumes "load_failure env m this"
  shows "fst (TryLoadingCached env m this) \<and>
         m_Handle (heap (snd (TryLoadingCached env m this)) this) = m_ErrorHandle m"
  using assms
  by (auto simp: load_failure_def TryLoadingCached_def archive_cache_path_def Let_def split_beta
      load_fails_def LoadTexture_handle split: if_splits)

text \<open>
  C7. For a registered entry in state \<open>UNLOADED\<close> or \<open>PREFETCH_NEEDS_LOADING\<close>:
  with an unusable archive cache and an absent source file, \<open>TryLoadingCached\<close> puts the
  error handle in place and reports success, changing nothing else (no conversion is
  requested); a load or an upload that fails leaves the error handle in the entry; and
  whenever the load attempted for the entry fails, \<open>TryLoad\<close> returns true with the
  entry \<open>LOADED\<close> and holding the error handle, the conversion scheduler untouched.
  \<open>TryLoad\<close> is a total function whose result is a truth value and the new manager:
  there is no error value for it to pass on.
\<close>

theorem load_failures_absorbed:
  assumes reg: "registered m this"
    and st: "m_State (heap m this) = UNLOADED \<or> m_State (heap m this) = PREFETCH_NEEDS_LOADING"
  shows "(\<not> CanUseArchiveCache env (m_Path (m_Properties (heap m this)))
              (archive_cache_path (m_Path (m_Properties (heap m this)))) \<and>
          GetFileInfo env (m_Path (m_Properties (heap m this))) = None \<longrightarrow>
            TryLoadingCached env m this = (True, upd this (SetHandle (m_ErrorHandle m)) m)) \<and>
         (\<forall>path. \<not> m_DisableGL m \<and> load_fails env path \<longrightarrow>
            m_Handle (heap (LoadTexture env m this path) this) = m_ErrorHandle m) \<and>
         (load_failure env m this \<longrightarrow>
            fst (TryLoad env m this) \<and>
            m_State (heap (snd (TryLoad env m this)) this) = LOADED \<and>
            m_Handle (heap (snd (TryLoad env m this)) this) = m_ErrorHandle m \<and>
            m_TextureConverter (snd (TryLoad env m this)) = m_TextureConverter m)"
proof -
  have a: "TryLoadingCached env m this = (True, upd this (SetHandle (m_ErrorHandle m)) m)"
    if "\<not> CanUseArchiveCache env (m_Path (m_Properties (heap m this)))
              (archive_cache_path (m_Path (m_Properties (heap m this))))"
      "GetFileInfo env (m_Path (m_Properties (heap m this))) = None"
    using that by (simp add: TryLoadingCached_def archive_cache_path_def Let_def)
  have b: "m_Handle (heap (LoadTexture env m this path) this) = m_ErrorHandle m"
    if "\<not> m_DisableGL m" "load_fails env path" for path
    using that by (auto simp: LoadTexture_handle load_fails_def)
  have c: "fst (TryLoad env m this) \<and>
            m_State (heap (snd (TryLoad env m this)) this) = LOADED \<and>
            m_Handle (heap (snd (TryLoad env m this)) this) = m_ErrorHandle m \<and>
            m_TextureConverter (snd (TryLoad env m this)) = m_TextureConverter m"
    if "load_failure env m this"
    using TryLoadingCached_failure [OF that] by (simp add: TryLoad_load [OF reg st])
  show ?thesis using a b c by blast
qed

theorem load_failures_absorbed_witness:
  "registered (ex_in_state UNLOADED) 1 \<and>
   load_failure (ex_env Map.empty (\<lambda>p. 7)) (ex_in_state UNLOADED) 1 \<and>
   load_failure (ex_env [ex_archive \<mapsto> (0, 97)] (\<lambda>p. 0)) (ex_in_state UNLOADED) 1 \<and>
   load_failure (ex_env [ex_archive \<mapsto> (0, 97)] (\<lambda>p. 66)) (ex_in_state PREFETCH_NEEDS_LOADING) 1 \<and>
   fst (TryLoad (ex_env Map.empty (\<lambda>p. 7)) (ex_in_state UNLOADED) 1) \<and>
   m_State (heap (snd (TryLoad (ex_env Map.empty (\<lambda>p. 7)) (ex_in_state UNLOADED) 1)) 1) = LOADED \<and>
   m_Handle (heap (snd (TryLoad (ex_env Map.empty (\<lambda>p. 7)) (ex_in_state UNLOADED) 1)) 1) = 2 \<and>
   m_Handle (heap (snd (TryLoad (ex_env [ex_archive \<mapsto> (0, 97)] (\<lambda>p. 0)) (ex_in_state UNLOADED) 1)) 1) = 2 \<and>
   m_State (heap (snd (TryLoad (ex_env [ex_archive \<mapsto> (0, 97)] (\<lambda>p. 66))
                          (ex_in_state PREFETCH_NEEDS_LOADING) 1)) 1) = LOADED \<and>
   m_Handle (heap (snd (TryLoad (ex_env [ex_archive \<mapsto> (0, 97)] (\<lambda>p. 66))
                          (ex_in_state PREFETCH_NEEDS_LOADING) 1)) 1) = 2"
proof -
  have f1: "load_failure (ex_env Map.empty (\<lambda>p. 7)) (ex_in_state UNLOADED) (Suc 0)"
    by (simp add: load_failure_def CanUseArchiveCache_def ex_env_def ex_in_state_fields Let_def)
  have f2: "load_failure (ex_env [ex_archive \<mapsto> (0, 97)] (\<lambda>p. 0)) (ex_in_state UNLOADED) (Suc 0)"
    by (simp add: load_failure_def CanUseArchiveCache_def ex_env_def ex_in_state_fields Let_def
        archive_cache_path_def ex_key_def branch_path_def leaf_def ex_archive_def load_fails_def)
  have f3: "load_failure (ex_env [ex_archive \<mapsto> (0, 97)] (\<lambda>p. 66))
              (ex_in_state PREFETCH_NEEDS_LOADING) (Suc 0)"
    by (simp add: load_failure_def CanUseArchiveCache_def ex_env_def ex_in_state_fields Let_def
        archive_cache_path_def ex_key_def branch_path_def leaf_def ex_archive_def load_fails_def)
  show ?thesis
    using f1 f2 f3
      load_failures_absorbed [OF ex_registered, of UNLOADED "ex_env Map.empty (\<lambda>p. 7)"]
      load_failures_absorbed [OF ex_registered, of UNLOADED "ex_env [ex_archive \<mapsto> (0, 97)] (\<lambda>p. 0)"]
      load_failures_absorbed [OF ex_registered, of PREFETCH_NEEDS_LOADING
          "ex_env [ex_archive \<mapsto> (0, 97)] (\<lambda>p. 66)"]
    by (simp add: ex_registered ex_in_state_fields)
qed

section \<open>LooseCachePath\<close>


lemma mask_low_bit:
  "x div 2 = y div 2 \<Longrightarrow> (word_of_int x :: u64) AND NOT 1 = word_of_int y AND NOT 1"
proof -
  assume h: "x div 2 = y div 2"
  have "bit ((word_of_int x :: u64) AND NOT 1) n = bit ((word_of_int y :: u64) AND NOT 1) n" for n
  proof (cases n)
    case 0
    then show ?thesis by (simp add: bit_simps)
  next
    case (Suc k)
    have "bit x (Suc k) = bit y (Suc k)" using h by (simp add: bit_Suc)
    then show ?thesis using Suc by (simp add: bit_simps)
  qed
  then show ?thesis by (rule bit_eqI)
qed

lemma hex_digit_mem: "d < 16 \<Longrightarrow> hex_digit d \<in> set ''0123456789abcdef''"
  unfolding hex_digit_def by (simp only: if_True) (rule nth_mem, simp)

lemma hex_of_nat_small: "n < 16 \<Longrightarrow> hex_of_nat n = [hex_digit n]"
  by (simp add: hex_of_nat.simps)

lemma hex_of_nat_byte:
  assumes "n < 256"
  shows "length (setw2 (hex_of_nat n)) = 2 \<and> set (setw2 (hex_of_nat n)) \<subseteq> set ''0123456789abcdef''"
proof (cases "n < 16")
  case True
  then show ?thesis
    using hex_digit_mem [of n] by (simp add: hex_of_nat_small setw2_def)
next
  case False
  have d: "n div 16 < 16" using assms by simp
  have eq: "hex_of_nat n = [hex_digit (n div 16), hex_digit (n mod 16)]"
    using False d by (subst hex_of_nat.simps) (simp add: hex_of_nat_small)
  show ?thesis
    using hex_digit_mem [OF d] hex_digit_mem [of "n mod 16"] by (simp add: eq setw2_def)
qed

lemma digest_loop_hex:
  "length (digest_loop digest i n) = 2 * n \<and>
   set (digest_loop digest i n) \<subseteq> set ''0123456789abcdef''"
proof (induction n arbitrary: i)
  case 0
  then show ?case by simp
next
  case (Suc n)
  have "unat (digest ! i) < 256" using unsigned_less [of "digest ! i", where ?'a = nat] by simp
  from hex_of_nat_byte [OF this] Suc [of "Suc i"] show ?case by simp
qed

lemma digest_loop_take:
  "i + n \<le> length digest \<Longrightarrow>
   digest_loop digest i n = concat (map (\<lambda>b. setw2 (hex_of_nat (unat b))) (take n (drop i digest)))"
proof (induction n arbitrary: i)
  case 0
  then show ?case by simp
next
  case (Suc n)
  then have "i < length digest" by simp
  then have "take (Suc n) (drop i digest) = digest ! i # take n (drop (Suc i) digest)"
    by (simp add: take_Suc_conv_app_nth Cons_nth_drop_Suc [symmetric])
  then show ?case using Suc by simp
qed


text \<open>
  C8. With a digest of \<open>MD5::DIGESTSIZE = 16\<close> bytes and a source file whose
  information is available, the path returned by \<open>LooseCachePath\<close> is
  \<open>cache/<sourceDir>/<sourceName>.<digestPrefix>.dds\<close>, where the prefix consists of
  16 characters, all of them hexadecimal digits, two for each of the first 8 bytes of the
  digest of the masked modification time, the size, the version constant and the bytes
  of the resolved settings. A second derivation for the same source path, under the same
  digest and settings serialisation, with the same size, the same resolved settings and
  a modification time that differs at most in its lowest bit, returns the same path.
\<close>

theorem LooseCachePath_deterministic:
  assumes md5: "\<forall>bs. length (MD5 env bs) = 16"
    and info: "GetFileInfo env (m_Path (m_Properties (heap m a))) = Some fi"
  shows "(\<exists>hex. fst (LooseCachePath env m a) =
                  [''cache''] @ branch_path (m_Path (m_Properties (heap m a))) @
                  [leaf (m_Path (m_Properties (heap m a))) @ ''.'' @ hex @ ''.dds''] \<and>
                length hex = 16 \<and> set hex \<subseteq> set ''0123456789abcdef'' \<and>
                hex = concat (map (\<lambda>b. setw2 (hex_of_nat (unat b)))
                        (take 8 (MD5 env
                           (bytes_of_u64 ((word_of_int (MTime fi) :: u64) AND NOT 1) @
                            bytes_of_u64 (word_of_int (Size fi)) @ bytes_of_u32 version @
                            SettingsHash env (fst (GetConverterSettings env m a))))))) \<and>
         (m_Path (m_Properties (heap m' a')) = m_Path (m_Properties (heap m a)) \<and>
          GetFileInfo env' (m_Path (m_Properties (heap m' a'))) = Some fi' \<and>
          Size fi' = Size fi \<and> MTime fi' div 2 = MTime fi div 2 \<and>
          MD5 env' = MD5 env \<and> SettingsHash env' = SettingsHash env \<and>
          fst (GetConverterSettings env' m' a') = fst (GetConverterSettings env m a) \<longrightarrow>
            fst (LooseCachePath env' m' a') = fst (LooseCachePath env m a))"
proof -
  let ?src = "m_Path (m_Properties (heap m a))"
  let ?input = "bytes_of_u64 ((word_of_int (MTime fi) :: u64) AND NOT 1) @
                bytes_of_u64 (word_of_int (Size fi)) @ bytes_of_u32 version @
                SettingsHash env (fst (GetConverterSettings env m a))"
  let ?hex = "digest_loop (MD5 env ?input) 0 8"
  have path: "fst (LooseCachePath env m a) =
                loose_path env ?src fi (fst (GetConverterSettings env m a))"
    using info by (simp add: LooseCachePath_def Let_def split_beta)
  have form: "fst (LooseCachePath env m a) =
                [''cache''] @ branch_path ?src @ [leaf ?src @ ''.'' @ ?hex @ ''.dds'']"
    by (simp add: path loose_path_def Let_def)
  have len: "length ?hex = 16" "set ?hex \<subseteq> set ''0123456789abcdef''"
    using digest_loop_hex [of "MD5 env ?input" 0 8] by simp_all
  have "0 + 8 \<le> length (MD5 env ?input)" using md5 by simp
  from digest_loop_take [OF this]
  have tk: "?hex = concat (map (\<lambda>b. setw2 (hex_of_nat (unat b))) (take 8 (MD5 env ?input)))"
    by simp
  have ex: "\<exists>hex. fst (LooseCachePath env m a) =
                  [''cache''] @ branch_path ?src @ [leaf ?src @ ''.'' @ hex @ ''.dds''] \<and>
                length hex = 16 \<and> set hex \<subseteq> set ''0123456789abcdef'' \<and>
                hex = concat (map (\<lambda>b. setw2 (hex_of_nat (unat b))) (take 8 (MD5 env ?input)))"
    using form len tk by blast
  have det: "fst (LooseCachePath env' m' a') = fst (LooseCachePath env m a)"
    if h: "m_Path (m_Properties (heap m' a')) = ?src"
      "GetFileInfo env' (m_Path (m_Properties (heap m' a'))) = Some fi'"
      "Size fi' = Size fi" "MTime fi' div 2 = MTime fi div 2"
      "MD5 env' = MD5 env" "SettingsHash env' = SettingsHash env"
      "fst (GetConverterSettings env' m' a') = fst (GetConverterSettings env m a)"
  proof -
    have "fst (LooseCachePath env' m' a') =
            loose_path env' ?src fi' (fst (GetConverterSettings env m a))"
      using h(1,2,7) by (simp add: LooseCachePath_def Let_def split_beta)
    also have "\<dots> = loose_path env ?src fi (fst (GetConverterSettings env m a))"
      using h(3,5,6) mask_low_bit [OF h(4)] by (simp add: loose_path_def Let_def)
    finally show ?thesis by (simp add: path)
  qed
  show ?thesis using ex det by blast
qed

lemma ex_env_fields [simp]:
  "GetFilePriority (ex_env files load) = (\<lambda>p. map_option fst (files p))"
  "GetFileInfo (ex_env files load) = (\<lambda>p. map_option (\<lambda>x. \<lparr>MTime = snd x, Size = 1024\<rparr>) (files p))"
  "ogl_tex_load (ex_env files load) = load"
  "ogl_tex_upload (ex_env files load) = (\<lambda>h. if h = 66 then - 1 else 0)"
  "LoadSettings (ex_env files load) = (\<lambda>p. Some 7)"
  "ComputeSettings (ex_env files load) = (\<lambda>n fs. sum_list fs)"
  "SettingsHash (ex_env files load) = (\<lambda>s. [of_nat s])"
  "MD5 (ex_env files load) = (\<lambda>bs. replicate 16 (of_nat (length bs)))"
  by (simp_all add: ex_env_def)

lemma ex_files_lookup [simp]:
  "ex_files ts ta ex_src = Some (0, ts)"
  "ex_files ts ta [''textures.xml''] = None"
  "ex_files ts ta [''art'', ''textures.xml''] = None"
  by (simp_all add: ex_files_def ex_src_def ex_archive_def)

lemma ex_settings:
  "fst (GetConverterSettings (ex_env (ex_files t 97) load) ex_manager1 (Suc 0)) = 0"
  by (simp add: GetConverterSettings_def GetSettingsFile_def Let_def split_beta
      ex_manager1_fields ex_key_def leaf_def)

lemma hex_21: "setw2 (hex_of_nat 21) = ''15''"
proof -
  have "hex_of_nat 21 = hex_of_nat 1 @ [hex_digit 5]"
    by (subst hex_of_nat.simps) simp
  also have "hex_of_nat 1 = [hex_digit 1]" by (subst hex_of_nat.simps) simp
  finally show ?thesis by (simp add: setw2_def hex_digit_def)
qed

lemma ex_digest:
  "digest_loop (replicate 16 (21 :: u8)) 0 8 = ''1515151515151515''"
proof -
  have "digest_loop (replicate 16 (21 :: u8)) 0 8 =
          concat (map (\<lambda>b. setw2 (hex_of_nat (unat b))) (take 8 (drop 0 (replicate 16 (21 :: u8)))))"
    by (rule digest_loop_take) simp
  also have "\<dots> = concat (replicate 8 ''15'')"
    by (simp add: hex_21)
  also have "\<dots> = ''1515151515151515''"
    by (simp add: eval_nat_numeral)
  finally show ?thesis .
qed

lemma ex_loose_path:
  "fst (LooseCachePath (ex_env (ex_files 100 97) load) ex_manager1 (Suc 0)) =
     [''cache'', ''art'', ''a.png.1515151515151515.dds'']"
proof -
  have "fst (LooseCachePath (ex_env (ex_files 100 97) load) ex_manager1 (Suc 0)) =
          loose_path (ex_env (ex_files 100 97) load) ex_src \<lparr>MTime = 100, Size = 1024\<rparr> 0"
    using ex_files_lookup(1) [of 100 97]
    by (simp add: LooseCachePath_def Let_def split_beta ex_settings ex_manager1_fields ex_key_def
        ex_src_def)
  also have "\<dots> = [''cache'', ''art'', ''a.png.1515151515151515.dds'']"
    by (simp add: loose_path_def Let_def bytes_of_u64_def bytes_of_u32_def ex_digest
        ex_src_def branch_path_def leaf_def)
  finally show ?thesis .
qed


theorem LooseCachePath_deterministic_witness:
  "(\<forall>bs. length (MD5 (ex_env (ex_files 100 97) (\<lambda>p. 7)) bs) = 16) \<and>
   GetFileInfo (ex_env (ex_files 100 97) (\<lambda>p. 7)) ex_src = Some \<lparr>MTime = 100, Size = 1024\<rparr> \<and>
   GetFileInfo (ex_env (ex_files 101 97) (\<lambda>p. 7)) ex_src = Some \<lparr>MTime = 101, Size = 1024\<rparr> \<and>
   fst (LooseCachePath (ex_env (ex_files 101 97) (\<lambda>p. 7)) ex_manager1 1) =
     fst (LooseCachePath (ex_env (ex_files 100 97) (\<lambda>p. 7)) ex_manager1 1) \<and>
   fst (LooseCachePath (ex_env (ex_files 100 97) (\<lambda>p. 7)) ex_manager1 1) =
     [''cache'', ''art'', ''a.png.1515151515151515.dds'']"
proof -
  have src: "m_Path (m_Properties (heap ex_manager1 (Suc 0))) = ex_src"
    by (simp add: ex_manager1_fields ex_key_def ex_src_def)
  have md5: "\<forall>bs. length (MD5 (ex_env (ex_files 100 97) (\<lambda>p. 7)) bs) = 16"
    by simp
  have i1: "GetFileInfo (ex_env (ex_files 100 97) (\<lambda>p. 7))
              (m_Path (m_Properties (heap ex_manager1 (Suc 0)))) = Some \<lparr>MTime = 100, Size = 1024\<rparr>"
    by (simp add: src)
  note t = LooseCachePath_deterministic [OF md5 i1, where m' = ex_manager1 and a' = "Suc 0"
      and env' = "ex_env (ex_files 101 97) (\<lambda>p. 7)" and fi' = "\<lparr>MTime = 101, Size = 1024\<rparr>"]
  show ?thesis
    using t by (simp add: src ex_settings ex_loose_path)
qed



section \<open>TryLoad and the cache load\<close>

lemma TryLoadingCached_result:
  "fst (TryLoadingCached env m this) = cache_load_succeeds env m this"
  "m_Handle (heap (snd (TryLoadingCached env m this)) this) = cache_load_handle env m this"
  by (simp_all add: TryLoadingCached_def cache_load_succeeds_def cache_load_handle_def
      loaded_handle_def archive_cache_path_def Let_def split_beta LoadTexture_handle)

text \<open>
  C5. \<open>TryLoad\<close> on a registered entry. In state \<open>UNLOADED\<close> or
  \<open>PREFETCH_NEEDS_LOADING\<close> it runs \<open>TryLoadingCached\<close>, and the outcome is the one
  the files determine: the result is true and the state \<open>LOADED\<close> exactly when the
  archive cache is usable, or the source file is absent, or the loose cache file exists;
  otherwise, on a miss, the result is false and the state \<open>HIGH_NEEDS_CONVERTING\<close>. The
  handle afterwards is the one of the archive cache or of the loose cache when that file
  loads, the error handle when the load fails or the source is absent, and the old handle
  on a miss; the conversion scheduler is untouched. In state
  \<open>PREFETCH_NEEDS_CONVERTING\<close> only the state changes, to \<open>HIGH_NEEDS_CONVERTING\<close>,
  and no cache load takes place. In every other state the manager is unchanged. The
  result is true exactly when the state afterwards is \<open>LOADED\<close>.
\<close>

theorem TryLoad_transitions:
  assumes reg: "registered m this"
  shows "(m_State (heap m this) = UNLOADED \<or> m_State (heap m this) = PREFETCH_NEEDS_LOADING \<longrightarrow>
            TryLoad env m this =
              (fst (TryLoadingCached env m this),
               upd this (set_state (if fst (TryLoadingCached env m this) then LOADED
                                    else HIGH_NEEDS_CONVERTING))
                 (snd (TryLoadingCached env m this))) \<and>
            fst (TryLoad env m this) = cache_load_succeeds env m this \<and>
            m_State (heap (snd (TryLoad env m this)) this) =
              (if cache_load_succeeds env m this then LOADED else HIGH_NEEDS_CONVERTING) \<and>
            m_Handle (heap (snd (TryLoad env m this)) this) = cache_load_handle env m this \<and>
            m_TextureConverter (snd (TryLoad env m this)) = m_TextureConverter m) \<and>
         (m_State (heap m this) = PREFETCH_NEEDS_CONVERTING \<longrightarrow>
            TryLoad env m this = (False, upd this (set_state HIGH_NEEDS_CONVERTING) m)) \<and>
         (m_State (heap m this) \<noteq> UNLOADED \<and> m_State (heap m this) \<noteq> PREFETCH_NEEDS_LOADING \<and>
          m_State (heap m this) \<noteq> PREFETCH_NEEDS_CONVERTING \<longrightarrow>
            TryLoad env m this = (m_State (heap m this) = LOADED, m)) \<and>
         fst (TryLoad env m this) = (m_State (heap (snd (TryLoad env m this)) this) = LOADED)"
proof -
  have 1: "TryLoad env m this =
              (fst (TryLoadingCached env m this),
               upd this (set_state (if fst (TryLoadingCached env m this) then LOADED
                                    else HIGH_NEEDS_CONVERTING))
                 (snd (TryLoadingCached env m this))) \<and>
            fst (TryLoad env m this) = cache_load_succeeds env m this \<and>
            m_State (heap (snd (TryLoad env m this)) this) =
              (if cache_load_succeeds env m this then LOADED else HIGH_NEEDS_CONVERTING) \<and>
            m_Handle (heap (snd (TryLoad env m this)) this) = cache_load_handle env m this \<and>
            m_TextureConverter (snd (TryLoad env m this)) = m_TextureConverter m"
    if "m_State (heap m this) = UNLOADED \<or> m_State (heap m this) = PREFETCH_NEEDS_LOADING"
    using TryLoad_load [OF reg that, of env] TryLoadingCached_result [of env m this]
    by simp
  show ?thesis
    using 1 TryLoad_escalate [OF reg, of env] TryLoad_idle [of m this env]
      TryLoad_result [of env m this]
    by blast
qed

lemma ex_in_state_more:
  "m_SettingsFiles (ex_in_state s) = Map.empty"
  "m_Handle (heap (ex_in_state s) (Suc 0)) = 1"
  by (simp_all add: ex_in_state_def ex_manager1_fields)

lemma ex_in_state_settings:
  assumes "files [''textures.xml''] = None" "files [''art'', ''textures.xml''] = None"
  shows "fst (GetConverterSettings (ex_env files load) (ex_in_state s) (Suc 0)) = 0"
  using assms
  by (simp add: GetConverterSettings_def GetSettingsFile_def Let_def split_beta
      ex_in_state_fields ex_in_state_more ex_key_def leaf_def)

lemma ex_in_state_loose:
  assumes "files ex_src = Some (pr, 100)"
    "files [''textures.xml''] = None" "files [''art'', ''textures.xml''] = None"
  shows "fst (LooseCachePath (ex_env files load) (ex_in_state s) (Suc 0)) = ex_loose"
proof -
  have src: "m_Path (m_Properties (heap (ex_in_state s) (Suc 0))) = ex_src"
    by (simp add: ex_in_state_fields ex_key_def ex_src_def)
  have "fst (LooseCachePath (ex_env files load) (ex_in_state s) (Suc 0)) =
          loose_path (ex_env files load) ex_src \<lparr>MTime = 100, Size = 1024\<rparr> 0"
    using assms(1)
    by (simp add: LooseCachePath_def Let_def split_beta src ex_in_state_settings [OF assms(2,3)])
  also have "\<dots> = ex_loose"
    by (simp add: loose_path_def Let_def bytes_of_u64_def bytes_of_u32_def ex_digest
        ex_src_def branch_path_def leaf_def ex_loose_def)
  finally show ?thesis .
qed

lemma ex_files_facts:
  "ex_files ts ta ex_archive = Some (0, ta)"
  "ex_files ts ta ex_loose = None"
  "ex_files_loose ex_src = Some (0, 100)"
  "ex_files_loose ex_archive = Some (0, 97)"
  "ex_files_loose ex_loose = Some (0, 100)"
  "ex_files_loose [''textures.xml''] = None"
  "ex_files_loose [''art'', ''textures.xml''] = None"
  by (simp_all add: ex_files_loose_def ex_files_def ex_src_def ex_archive_def ex_loose_def)

lemma ex_archive_path:
  "m_Path (ex_key ''a.png'' aniso) = ex_src"
  "archive_cache_path ex_src = ex_archive"
  by (simp_all add: archive_cache_path_def ex_key_def ex_archive_def ex_src_def
      branch_path_def leaf_def)

lemma ex_can_use:
  "CanUseArchiveCache (ex_env (ex_files 99 97) load) ex_src ex_archive"
  "\<not> CanUseArchiveCache (ex_env (ex_files 100 97) load) ex_src ex_archive"
  "\<not> CanUseArchiveCache (ex_env ex_files_loose load) ex_src ex_archive"
  "\<not> CanUseArchiveCache (ex_env Map.empty load) ex_src ex_archive"
  by (simp_all add: CanUseArchiveCache_def difftime_def Let_def ex_files_facts)

text \<open>
  The four ways through the cache load on the example entry: a miss (source present,
  archive cache stale, no loose cache), a hit on the archive cache, a hit on the loose
  cache, and an absent source.
\<close>

lemma ex_cache_load:
  "\<not> cache_load_succeeds (ex_env (ex_files 100 97) (\<lambda>p. 7)) (ex_in_state s) (Suc 0)"
  "cache_load_handle (ex_env (ex_files 100 97) (\<lambda>p. 7)) (ex_in_state s) (Suc 0) = 1"
  "cache_load_succeeds (ex_env (ex_files 99 97) (\<lambda>p. 7)) (ex_in_state s) (Suc 0)"
  "cache_load_handle (ex_env (ex_files 99 97) (\<lambda>p. 7)) (ex_in_state s) (Suc 0) = 7"
  "cache_load_succeeds (ex_env ex_files_loose (\<lambda>p. 9)) (ex_in_state s) (Suc 0)"
  "cache_load_handle (ex_env ex_files_loose (\<lambda>p. 9)) (ex_in_state s) (Suc 0) = 9"
  "cache_load_succeeds (ex_env Map.empty (\<lambda>p. 7)) (ex_in_state s) (Suc 0)"
  "cache_load_handle (ex_env Map.empty (\<lambda>p. 7)) (ex_in_state s) (Suc 0) = 2"
  by (simp_all add: cache_load_succeeds_def cache_load_handle_def loaded_handle_def
      ex_archive_path ex_can_use ex_in_state_loose ex_files_facts ex_in_state_fields
      ex_in_state_more)

theorem TryLoad_transitions_witness:
  "registered (ex_in_state UNLOADED) 1 \<and>
   \<not> fst (TryLoad (ex_env (ex_files 100 97) (\<lambda>p. 7)) (ex_in_state UNLOADED) 1) \<and>
   m_State (heap (snd (TryLoad (ex_env (ex_files 100 97) (\<lambda>p. 7)) (ex_in_state UNLOADED) 1)) 1)
     = HIGH_NEEDS_CONVERTING \<and>
   m_Handle (heap (snd (TryLoad (ex_env (ex_files 100 97) (\<lambda>p. 7)) (ex_in_state UNLOADED) 1)) 1)
     = 1 \<and>
   fst (TryLoad (ex_env (ex_files 99 97) (\<lambda>p. 7)) (ex_in_state PREFETCH_NEEDS_LOADING) 1) \<and>
   m_State (heap (snd (TryLoad (ex_env (ex_files 99 97) (\<lambda>p. 7))
                         (ex_in_state PREFETCH_NEEDS_LOADING) 1)) 1) = LOADED \<and>
   m_Handle (heap (snd (TryLoad (ex_env (ex_files 99 97) (\<lambda>p. 7))
                          (ex_in_state PREFETCH_NEEDS_LOADING) 1)) 1) = 7 \<and>
   fst (TryLoad (ex_env ex_files_loose (\<lambda>p. 9)) (ex_in_state UNLOADED) 1) \<and>
   m_State (heap (snd (TryLoad (ex_env ex_files_loose (\<lambda>p. 9)) (ex_in_state UNLOADED) 1)) 1)
     = LOADED \<and>
   m_Handle (heap (snd (TryLoad (ex_env ex_files_loose (\<lambda>p. 9)) (ex_in_state UNLOADED) 1)) 1)
     = 9 \<and>
   TryLoad (ex_env Map.empty (\<lambda>p. 7)) (ex_in_state UNLOADED) 1 =
     (True, upd 1 (set_state LOADED) (upd 1 (SetHandle 2) (ex_in_state UNLOADED))) \<and>
   TryLoad (ex_env (ex_files 99 97) (\<lambda>p. 7)) (ex_in_state PREFETCH_NEEDS_CONVERTING) 1 =
     (False, upd 1 (set_state HIGH_NEEDS_CONVERTING) (ex_in_state PREFETCH_NEEDS_CONVERTING)) \<and>
   TryLoad (ex_env (ex_files 99 97) (\<lambda>p. 7)) (ex_in_state HIGH_IS_CONVERTING) 1 =
     (False, ex_in_state HIGH_IS_CONVERTING)"
proof -
  have u: "m_State (heap (ex_in_state UNLOADED) (Suc 0)) = UNLOADED \<or>
           m_State (heap (ex_in_state UNLOADED) (Suc 0)) = PREFETCH_NEEDS_LOADING"
    by (simp add: ex_in_state_fields)
  have p: "m_State (heap (ex_in_state PREFETCH_NEEDS_LOADING) (Suc 0)) = UNLOADED \<or>
           m_State (heap (ex_in_state PREFETCH_NEEDS_LOADING) (Suc 0)) = PREFETCH_NEEDS_LOADING"
    by (simp add: ex_in_state_fields)
  note t = TryLoad_transitions [OF ex_registered]
  note load = t [THEN conjunct1, rule_format]
  note miss = load [OF u, where env = "ex_env (ex_files 100 97) (\<lambda>p. 7)", THEN conjunct2]
  note archive = load [OF p, where env = "ex_env (ex_files 99 97) (\<lambda>p. 7)", THEN conjunct2]
  note loose = load [OF u, where env = "ex_env ex_files_loose (\<lambda>p. 9)", THEN conjunct2]
  note absent = load [OF u, where env = "ex_env Map.empty (\<lambda>p. 7)", THEN conjunct1]
  note bump = TryLoad_transitions [OF ex_registered [of PREFETCH_NEEDS_CONVERTING],
      where env = "ex_env (ex_files 99 97) (\<lambda>p. 7)",
      THEN conjunct2, THEN conjunct1]
  note idle = TryLoad_transitions [OF ex_registered [of HIGH_IS_CONVERTING],
      where env = "ex_env (ex_files 99 97) (\<lambda>p. 7)",
      THEN conjunct2, THEN conjunct2, THEN conjunct1]
  have 1: "\<not> fst (TryLoad (ex_env (ex_files 100 97) (\<lambda>p. 7)) (ex_in_state UNLOADED) (Suc 0))"
    "m_State (heap (snd (TryLoad (ex_env (ex_files 100 97) (\<lambda>p. 7))
                           (ex_in_state UNLOADED) (Suc 0))) (Suc 0)) = HIGH_NEEDS_CONVERTING"
    "m_Handle (heap (snd (TryLoad (ex_env (ex_files 100 97) (\<lambda>p. 7))
                           (ex_in_state UNLOADED) (Suc 0))) (Suc 0)) = 1"
    using miss by (simp_all add: ex_cache_load)
  have 2: "fst (TryLoad (ex_env (ex_files 99 97) (\<lambda>p. 7)) (ex_in_state PREFETCH_NEEDS_LOADING) (Suc 0))"
    "m_State (heap (snd (TryLoad (ex_env (ex_files 99 97) (\<lambda>p. 7))
                           (ex_in_state PREFETCH_NEEDS_LOADING) (Suc 0))) (Suc 0)) = LOADED"
    "m_Handle (heap (snd (TryLoad (ex_env (ex_files 99 97) (\<lambda>p. 7))
                           (ex_in_state PREFETCH_NEEDS_LOADING) (Suc 0))) (Suc 0)) = 7"
    using archive by (simp_all add: ex_cache_load)
  have 3: "fst (TryLoad (ex_env ex_files_loose (\<lambda>p. 9)) (ex_in_state UNLOADED) (Suc 0))"
    "m_State (heap (snd (TryLoad (ex_env ex_files_loose (\<lambda>p. 9))
                           (ex_in_state UNLOADED) (Suc 0))) (Suc 0)) = LOADED"
    "m_Handle (heap (snd (TryLoad (ex_env ex_files_loose (\<lambda>p. 9))
                           (ex_in_state UNLOADED) (Suc 0))) (Suc 0)) = 9"
    using loose by (simp_all add: ex_cache_load)
  have 4: "TryLoad (ex_env Map.empty (\<lambda>p. 7)) (ex_in_state UNLOADED) (Suc 0) =
     (True, upd (Suc 0) (set_state LOADED) (upd (Suc 0) (SetHandle 2) (ex_in_state UNLOADED)))"
    using absent by (simp add: ex_missing_source)
  have 5: "TryLoad (ex_env (ex_files 99 97) (\<lambda>p. 7)) (ex_in_state PREFETCH_NEEDS_CONVERTING) (Suc 0) =
     (False, upd (Suc 0) (set_state HIGH_NEEDS_CONVERTING) (ex_in_state PREFETCH_NEEDS_CONVERTING))"
    using bump by (simp add: ex_in_state_fields)
  have 6: "TryLoad (ex_env (ex_files 99 97) (\<lambda>p. 7)) (ex_in_state HIGH_IS_CONVERTING) (Suc 0) =
     (False, ex_in_state HIGH_IS_CONVERTING)"
    using idle by (simp add: ex_in_state_fields)
  show ?thesis
    using ex_registered [of UNLOADED] 1 2 3 4 5 6 by simp
qed

section \<open>MakeProgress\<close>


lemma find_state_first: "(find_state h s xs = Some it) = first_in_state h s xs it"
proof (induction xs)
  case Nil
  then show ?case by (simp add: first_in_state_def)
next
  case (Cons x xs)
  show ?case
  proof (cases "m_State (h x) = s")
    case True
    have "first_in_state h s (x # xs) it = (it = x)"
    proof
      assume "first_in_state h s (x # xs) it"
      then obtain ys zs where e: "x # xs = ys @ it # zs"
        and n: "\<forall>b \<in> set ys. m_State (h b) \<noteq> s"
        unfolding first_in_state_def by blast
      show "it = x"
      proof (cases ys)
        case Nil
        then show ?thesis using e by simp
      next
        case (Cons y ys')
        then have "y = x" using e by simp
        then show ?thesis using n Cons True by simp
      qed
    next
      assume "it = x"
      then have "x # xs = [] @ it # xs \<and> m_State (h it) = s \<and> (\<forall>b \<in> set []. m_State (h b) \<noteq> s)"
        using True by simp
      then show "first_in_state h s (x # xs) it"
        unfolding first_in_state_def by blast
    qed
    then show ?thesis using True by auto
  next
    case False
    have "first_in_state h s (x # xs) it = first_in_state h s xs it"
    proof
      assume "first_in_state h s (x # xs) it"
      then obtain ys zs where e: "x # xs = ys @ it # zs" and st: "m_State (h it) = s"
        and n: "\<forall>b \<in> set ys. m_State (h b) \<noteq> s"
        unfolding first_in_state_def by blast
      show "first_in_state h s xs it"
      proof (cases ys)
        case Nil
        then show ?thesis using e st False by simp
      next
        case (Cons y ys')
        then have "xs = ys' @ it # zs \<and> m_State (h it) = s \<and> (\<forall>b \<in> set ys'. m_State (h b) \<noteq> s)"
          using e st n by simp
        then show ?thesis unfolding first_in_state_def by blast
      qed
    next
      assume "first_in_state h s xs it"
      then obtain ys zs where e: "xs = ys @ it # zs" and st: "m_State (h it) = s"
        and n: "\<forall>b \<in> set ys. m_State (h b) \<noteq> s"
        unfolding first_in_state_def by blast
      have "x # xs = (x # ys) @ it # zs \<and> m_State (h it) = s \<and>
            (\<forall>b \<in> set (x # ys). m_State (h b) \<noteq> s)"
        using e st n False by simp
      then show "first_in_state h s (x # xs) it"
        unfolding first_in_state_def by blast
    qed
    then show ?thesis using False Cons.IH by simp
  qed
qed

lemma find_state_none: "(find_state h s xs = None) = none_in_state h s xs"
  by (induction xs) (auto simp: none_in_state_def)

lemma find_state_state: "find_state h s xs = Some it \<Longrightarrow> m_State (h it) = s"
  by (simp add: find_state_first first_in_state_def) blast

lemma MakeProgress_poll:
  assumes "Poll (m_TextureConverter m) = Some ((texture, dest, ok), c')"
  shows "MakeProgress env m =
           (True, upd texture (set_state LOADED)
                    (if ok then LoadTexture env (m\<lparr>m_TextureConverter := c'\<rparr>) texture dest
                     else upd texture (SetHandle (m_ErrorHandle m)) (m\<lparr>m_TextureConverter := c'\<rparr>)))"
  using assms by (simp add: MakeProgress_def Let_def)

lemma MakeProgress_high:
  assumes "Poll (m_TextureConverter m) = None" "\<not> IsBusy (m_TextureConverter m)"
    "find_state (heap m) HIGH_NEEDS_CONVERTING (m_TextureCache m) = Some it"
  shows "MakeProgress env m =
           (True, ConvertTexture env (upd it (set_state HIGH_IS_CONVERTING) m) it)"
  using assms by (simp add: MakeProgress_def Let_def)

lemma MakeProgress_load:
  assumes "Poll (m_TextureConverter m) = None"
    "IsBusy (m_TextureConverter m) \<or>
     find_state (heap m) HIGH_NEEDS_CONVERTING (m_TextureCache m) = None"
    "find_state (heap m) PREFETCH_NEEDS_LOADING (m_TextureCache m) = Some it"
  shows "MakeProgress env m =
           (True, upd it (set_state (if fst (TryLoadingCached env m it) then LOADED
                                     else PREFETCH_NEEDS_CONVERTING))
                    (snd (TryLoadingCached env m it)))"
  using assms by (auto simp: MakeProgress_def Let_def split_beta)

lemma MakeProgress_prefetch:
  assumes "Poll (m_TextureConverter m) = None" "\<not> IsBusy (m_TextureConverter m)"
    "find_state (heap m) HIGH_NEEDS_CONVERTING (m_TextureCache m) = None"
    "find_state (heap m) PREFETCH_NEEDS_LOADING (m_TextureCache m) = None"
    "find_state (heap m) PREFETCH_NEEDS_CONVERTING (m_TextureCache m) = Some it"
  shows "MakeProgress env m =
           (True, ConvertTexture env (upd it (set_state PREFETCH_IS_CONVERTING) m) it)"
  using assms by (simp add: MakeProgress_def Let_def)

lemma MakeProgress_idle:
  assumes "Poll (m_TextureConverter m) = None"
    "find_state (heap m) PREFETCH_NEEDS_LOADING (m_TextureCache m) = None"
    "IsBusy (m_TextureConverter m) \<or>
     (find_state (heap m) HIGH_NEEDS_CONVERTING (m_TextureCache m) = None \<and>
      find_state (heap m) PREFETCH_NEEDS_CONVERTING (m_TextureCache m) = None)"
  shows "MakeProgress env m = (False, m)"
  using assms by (auto simp: MakeProgress_def Let_def)


lemma Poll_Some:
  "Poll c = Some (r, c') \<Longrightarrow>
     m_ResultQueue c = r # m_ResultQueue c' \<and> m_RequestQueue c' = m_RequestQueue c"
  by (auto simp: Poll_def split: list.splits)

lemma Poll_None: "(Poll c = None) = (m_ResultQueue c = [])"
  by (simp add: Poll_def split: list.splits)

lemma MakeProgress_split:
  obtains
    (poll) texture dest ok c' where "Poll (m_TextureConverter m) = Some ((texture, dest, ok), c')"
  | (high) it where "Poll (m_TextureConverter m) = None" "\<not> IsBusy (m_TextureConverter m)"
      "find_state (heap m) HIGH_NEEDS_CONVERTING (m_TextureCache m) = Some it"
  | (load) it where "Poll (m_TextureConverter m) = None"
      "IsBusy (m_TextureConverter m) \<or>
       find_state (heap m) HIGH_NEEDS_CONVERTING (m_TextureCache m) = None"
      "find_state (heap m) PREFETCH_NEEDS_LOADING (m_TextureCache m) = Some it"
  | (prefetch) it where "Poll (m_TextureConverter m) = None" "\<not> IsBusy (m_TextureConverter m)"
      "find_state (heap m) HIGH_NEEDS_CONVERTING (m_TextureCache m) = None"
      "find_state (heap m) PREFETCH_NEEDS_LOADING (m_TextureCache m) = None"
      "find_state (heap m) PREFETCH_NEEDS_CONVERTING (m_TextureCache m) = Some it"
  | (idle) "Poll (m_TextureConverter m) = None"
      "find_state (heap m) PREFETCH_NEEDS_LOADING (m_TextureCache m) = None"
      "IsBusy (m_TextureConverter m) \<or>
       (find_state (heap m) HIGH_NEEDS_CONVERTING (m_TextureCache m) = None \<and>
        find_state (heap m) PREFETCH_NEEDS_CONVERTING (m_TextureCache m) = None)"
proof (cases "Poll (m_TextureConverter m)")
  case (Some x)
  then show ?thesis using poll by (cases x) auto
next
  case None
  then show ?thesis using high load prefetch idle by (meson option.exhaust)
qed

lemma MakeProgress_keeps_loaded:
  assumes "m_State (heap m a) = LOADED"
  shows "m_State (heap (snd (MakeProgress env m)) a) = LOADED"
proof (cases m rule: MakeProgress_split)
  case (poll texture dest ok c')
  show ?thesis using assms by (simp add: MakeProgress_poll [OF poll])
next
  case (high it)
  have "it \<noteq> a" using find_state_state [OF high(3)] assms by auto
  then show ?thesis using assms by (simp add: MakeProgress_high [OF high])
next
  case (load it)
  have "it \<noteq> a" using find_state_state [OF load(3)] assms by auto
  then show ?thesis using assms by (simp add: MakeProgress_load [OF load])
next
  case (prefetch it)
  have "it \<noteq> a" using find_state_state [OF prefetch(5)] assms by auto
  then show ?thesis using assms by (simp add: MakeProgress_prefetch [OF prefetch])
next
  case idle
  show ?thesis using assms by (simp add: MakeProgress_idle [OF idle])
qed

lemma TryLoad_keeps_loaded:
  assumes "m_State (heap m a) = LOADED"
  shows "m_State (heap (snd (TryLoad env m b)) a) = LOADED"
  using assms by (auto simp: TryLoad_def Let_def split_beta split: option.splits)

lemma Prefetch_keeps_loaded:
  assumes "m_State (heap m a) = LOADED"
  shows "m_State (heap (Prefetch m b) a) = LOADED"
  using assms by (auto simp: Prefetch_def split: option.splits)

text \<open>
  C4. When \<open>Poll\<close> hands \<open>MakeProgress\<close> a completed job, the call returns true
  and the entry of the job is \<open>LOADED\<close>, whether the conversion succeeded or not. After
  a failed conversion the entry holds the error handle. After a successful one the entry
  is what \<open>LoadTexture\<close> of the produced file makes of it: the handle of the loaded file,
  or the error handle when the load or the upload fails (and the old handle without GL).
  No request is added to the queue of the scheduler, so the conversion is not tried
  again, and the entry stays \<open>LOADED\<close> under every further \<open>MakeProgress\<close>,
  \<open>TryLoad\<close> and \<open>Prefetch\<close>.
\<close>

theorem MakeProgress_completion:
  assumes poll: "Poll (m_TextureConverter m) = Some ((texture, dest, ok), c')"
    and mp: "MakeProgress env m = (r, m')"
  shows "r \<and> m_State (heap m' texture) = LOADED \<and>
         (\<not> ok \<longrightarrow> m_Handle (heap m' texture) = m_ErrorHandle m) \<and>
         (ok \<longrightarrow> heap m' texture =
                   set_state LOADED (heap (LoadTexture env m texture dest) texture) \<and>
                 m_Handle (heap m' texture) =
                   (if m_DisableGL m then m_Handle (heap m texture)
                    else if ogl_tex_load env dest \<le> 0 then m_ErrorHandle m
                    else if ogl_tex_upload env (ogl_tex_load env dest) < 0 then m_ErrorHandle m
                    else ogl_tex_load env dest)) \<and>
         m_RequestQueue (m_TextureConverter m') = m_RequestQueue (m_TextureConverter m) \<and>
         m_ResultQueue (m_TextureConverter m') = tl (m_ResultQueue (m_TextureConverter m)) \<and>
         (\<forall>env'. m_State (heap (snd (MakeProgress env' m')) texture) = LOADED) \<and>
         (\<forall>env' b. m_State (heap (snd (TryLoad env' m' b)) texture) = LOADED) \<and>
         (\<forall>b. m_State (heap (Prefetch m' b) texture) = LOADED)"
proof -
  let ?m0 = "m\<lparr>m_TextureConverter := c'\<rparr>"
  from mp MakeProgress_poll [OF poll, of env]
  have r: "r" and m': "m' = upd texture (set_state LOADED)
                    (if ok then LoadTexture env ?m0 texture dest
                     else upd texture (SetHandle (m_ErrorHandle m)) ?m0)"
    by simp_all
  have st: "m_State (heap m' texture) = LOADED" by (simp add: m')
  have bad: "m_Handle (heap m' texture) = m_ErrorHandle m" if "\<not> ok"
    using that by (simp add: m')
  have same: "heap (LoadTexture env ?m0 texture dest) = heap (LoadTexture env m texture dest)"
    by (simp add: LoadTexture_def Let_def upd_def)
  have good: "heap m' texture = set_state LOADED (heap (LoadTexture env m texture dest) texture)"
    if "ok" using that by (simp add: m' same)
  have handle: "m_Handle (heap m' texture) =
                   (if m_DisableGL m then m_Handle (heap m texture)
                    else if ogl_tex_load env dest \<le> 0 then m_ErrorHandle m
                    else if ogl_tex_upload env (ogl_tex_load env dest) < 0 then m_ErrorHandle m
                    else ogl_tex_load env dest)"
    if "ok" using good [OF that] by (simp add: LoadTexture_handle)
  have conv: "m_TextureConverter m' = c'" by (simp add: m')
  have q: "m_RequestQueue (m_TextureConverter m') = m_RequestQueue (m_TextureConverter m)"
    "m_ResultQueue (m_TextureConverter m') = tl (m_ResultQueue (m_TextureConverter m))"
    using Poll_Some [OF poll] by (simp_all add: conv)
  show ?thesis
    using r st bad good handle q MakeProgress_keeps_loaded [OF st] TryLoad_keeps_loaded [OF st]
      Prefetch_keeps_loaded [OF st]
    by blast
qed


lemma MakeProgress_summary:
  assumes mp: "MakeProgress env m = (r, m')"
  shows "(\<exists>it. \<forall>b. b \<noteq> it \<longrightarrow> heap m' b = heap m b) \<and>
         ((m_RequestQueue (m_TextureConverter m') = m_RequestQueue (m_TextureConverter m) \<and>
           (m_ResultQueue (m_TextureConverter m') = m_ResultQueue (m_TextureConverter m) \<or>
            (m_ResultQueue (m_TextureConverter m) \<noteq> [] \<and>
             m_ResultQueue (m_TextureConverter m') = tl (m_ResultQueue (m_TextureConverter m))))) \<or>
          (\<not> IsBusy (m_TextureConverter m) \<and>
           m_ResultQueue (m_TextureConverter m') = m_ResultQueue (m_TextureConverter m) \<and>
           (\<exists>q. m_RequestQueue (m_TextureConverter m') =
                   m_RequestQueue (m_TextureConverter m) @ [q] \<and>
                (m_State (heap m (req_texture q)) = HIGH_NEEDS_CONVERTING \<or>
                 m_State (heap m (req_texture q)) = PREFETCH_NEEDS_CONVERTING \<and>
                 none_in_state (heap m) HIGH_NEEDS_CONVERTING (m_TextureCache m)))))"
proof (cases m rule: MakeProgress_split)
  case (poll texture dest ok c')
  from mp MakeProgress_poll [OF poll, of env]
  have m': "m' = upd texture (set_state LOADED)
                    (if ok then LoadTexture env (m\<lparr>m_TextureConverter := c'\<rparr>) texture dest
                     else upd texture (SetHandle (m_ErrorHandle m)) (m\<lparr>m_TextureConverter := c'\<rparr>))"
    by simp
  have 1: "\<forall>b. b \<noteq> texture \<longrightarrow> heap m' b = heap m b"
    by (simp add: m' LoadTexture_other)
  have 2: "m_TextureConverter m' = c'" by (simp add: m')
  show ?thesis using 1 2 Poll_Some [OF poll] by auto
next
  case (high it)
  from mp MakeProgress_high [OF high, of env]
  have m': "m' = ConvertTexture env (upd it (set_state HIGH_IS_CONVERTING) m) it" by simp
  have 1: "\<forall>b. b \<noteq> it \<longrightarrow> heap m' b = heap m b" by (simp add: m')
  have 2: "m_ResultQueue (m_TextureConverter m') = m_ResultQueue (m_TextureConverter m)"
    by (simp add: m' ConvertTexture_queue)
  have 3: "\<exists>q. m_RequestQueue (m_TextureConverter m') =
                   m_RequestQueue (m_TextureConverter m) @ [q] \<and>
                m_State (heap m (req_texture q)) = HIGH_NEEDS_CONVERTING"
    using find_state_state [OF high(3)] by (simp add: m' ConvertTexture_queue)
  show ?thesis using 1 2 3 high(2) by blast
next
  case (load it)
  from mp MakeProgress_load [OF load, of env]
  have m': "m' = upd it (set_state (if fst (TryLoadingCached env m it) then LOADED
                                     else PREFETCH_NEEDS_CONVERTING))
                    (snd (TryLoadingCached env m it))" by simp
  have 1: "\<forall>b. b \<noteq> it \<longrightarrow> heap m' b = heap m b"
    by (simp add: m' TryLoadingCached_other)
  have 2: "m_TextureConverter m' = m_TextureConverter m" by (simp add: m')
  show ?thesis using 1 2 by auto
next
  case (prefetch it)
  from mp MakeProgress_prefetch [OF prefetch, of env]
  have m': "m' = ConvertTexture env (upd it (set_state PREFETCH_IS_CONVERTING) m) it" by simp
  have 1: "\<forall>b. b \<noteq> it \<longrightarrow> heap m' b = heap m b" by (simp add: m')
  have 2: "m_ResultQueue (m_TextureConverter m') = m_ResultQueue (m_TextureConverter m)"
    by (simp add: m' ConvertTexture_queue)
  have 3: "\<exists>q. m_RequestQueue (m_TextureConverter m') =
                   m_RequestQueue (m_TextureConverter m) @ [q] \<and>
                m_State (heap m (req_texture q)) = PREFETCH_NEEDS_CONVERTING"
    using find_state_state [OF prefetch(5)] by (simp add: m' ConvertTexture_queue)
  have 4: "none_in_state (heap m) HIGH_NEEDS_CONVERTING (m_TextureCache m)"
    using prefetch(3) by (simp add: find_state_none)
  show ?thesis using 1 2 3 4 prefetch(2) by blast
next
  case idle
  from mp MakeProgress_idle [OF idle, of env] have "m' = m" by simp
  then show ?thesis by simp
qed

lemma converter_frames:
  "m_TextureConverter (snd (CreateTexture m k)) = m_TextureConverter m"
  "m_TextureConverter (snd (TryLoad env m b)) = m_TextureConverter m"
  "m_TextureConverter (Prefetch m b) = m_TextureConverter m"
  "m_TextureConverter (ReloadChangedFile m path) = m_TextureConverter m"
  by (auto simp: CreateTexture_def TryLoad_def Prefetch_def ReloadChangedFile_def Let_def
      split_beta split: option.splits)

lemma worker_in_flight: "jobs_in_flight (worker_finish ok c) = jobs_in_flight c"
  by (simp add: jobs_in_flight_def worker_finish_def split: list.splits)

lemma MakeProgress_in_flight:
  assumes "jobs_in_flight (m_TextureConverter m) \<le> 1"
  shows "jobs_in_flight (m_TextureConverter (snd (MakeProgress env m))) \<le> 1"
  using MakeProgress_summary [OF surjective_pairing, of env m] assms
  by (auto simp: jobs_in_flight_def IsBusy_def)

lemma reachable_in_flight:
  "reachable m \<Longrightarrow> jobs_in_flight (m_TextureConverter m) \<le> 1"
proof (induction rule: reachable.induct)
  case (init env disableGL errorProps)
  show ?case by (simp add: new_CTextureManagerImpl_def jobs_in_flight_def Let_def)
next
  case (progress m env)
  then show ?case by (intro MakeProgress_in_flight)
next
  case (worker m ok)
  then show ?case by (simp add: worker_in_flight del: One_nat_def)
qed (simp_all add: converter_frames)

text \<open>
  C2. One call of \<open>MakeProgress\<close>, with result \<open>r\<close> and new manager \<open>m'\<close>, in
  the order of its steps. (1) A polled completion is applied, and nothing else happens.
  (2) Otherwise, if the scheduler is not busy, the first entry in state
  \<open>HIGH_NEEDS_CONVERTING\<close> becomes \<open>HIGH_IS_CONVERTING\<close> and one request for it is
  queued. (3) Otherwise the first entry in state \<open>PREFETCH_NEEDS_LOADING\<close> gets its
  cache load, busy scheduler or not, and the scheduler is left alone. (4) Otherwise, if
  the scheduler is not busy, the first entry in state \<open>PREFETCH_NEEDS_CONVERTING\<close>
  becomes \<open>PREFETCH_IS_CONVERTING\<close> and one request for it is queued. (5) Otherwise the
  result is false and the manager unchanged. In every case at most one entry of the store
  changes and at most one request is added; a bound of one job in flight is kept, and it
  holds in every reachable manager; and a request for an entry that was in state
  \<open>PREFETCH_NEEDS_CONVERTING\<close> is only queued when no cached entry was in state
  \<open>HIGH_NEEDS_CONVERTING\<close>.
\<close>

theorem MakeProgress_priority:
  assumes mp: "MakeProgress env m = (r, m')"
  shows "(\<forall>texture dest ok c'.
            Poll (m_TextureConverter m) = Some ((texture, dest, ok), c') \<longrightarrow>
              r \<and> m_State (heap m' texture) = LOADED \<and>
              (\<forall>b. b \<noteq> texture \<longrightarrow> heap m' b = heap m b) \<and> m_TextureConverter m' = c') \<and>
         (\<forall>it. Poll (m_TextureConverter m) = None \<and> \<not> IsBusy (m_TextureConverter m) \<and>
               first_in_state (heap m) HIGH_NEEDS_CONVERTING (m_TextureCache m) it \<longrightarrow>
              r \<and> heap m' = (heap m)(it := set_state HIGH_IS_CONVERTING (heap m it)) \<and>
              (\<exists>q. m_RequestQueue (m_TextureConverter m') =
                      m_RequestQueue (m_TextureConverter m) @ [q] \<and> req_texture q = it)) \<and>
         (\<forall>it. Poll (m_TextureConverter m) = None \<and>
               (IsBusy (m_TextureConverter m) \<or>
                none_in_state (heap m) HIGH_NEEDS_CONVERTING (m_TextureCache m)) \<and>
               first_in_state (heap m) PREFETCH_NEEDS_LOADING (m_TextureCache m) it \<longrightarrow>
              r \<and> m_State (heap m' it) =
                    (if fst (TryLoadingCached env m it) then LOADED
                     else PREFETCH_NEEDS_CONVERTING) \<and>
              (\<forall>b. b \<noteq> it \<longrightarrow> heap m' b = heap m b) \<and>
              m_TextureConverter m' = m_TextureConverter m) \<and>
         (\<forall>it. Poll (m_TextureConverter m) = None \<and> \<not> IsBusy (m_TextureConverter m) \<and>
               none_in_state (heap m) HIGH_NEEDS_CONVERTING (m_TextureCache m) \<and>
               none_in_state (heap m) PREFETCH_NEEDS_LOADING (m_TextureCache m) \<and>
               first_in_state (heap m) PREFETCH_NEEDS_CONVERTING (m_TextureCache m) it \<longrightarrow>
              r \<and> heap m' = (heap m)(it := set_state PREFETCH_IS_CONVERTING (heap m it)) \<and>
              (\<exists>q. m_RequestQueue (m_TextureConverter m') =
                      m_RequestQueue (m_TextureConverter m) @ [q] \<and> req_texture q = it)) \<and>
         (Poll (m_TextureConverter m) = None \<and>
          none_in_state (heap m) PREFETCH_NEEDS_LOADING (m_TextureCache m) \<and>
          (IsBusy (m_TextureConverter m) \<or>
           none_in_state (heap m) HIGH_NEEDS_CONVERTING (m_TextureCache m) \<and>
           none_in_state (heap m) PREFETCH_NEEDS_CONVERTING (m_TextureCache m)) \<longrightarrow>
              \<not> r \<and> m' = m) \<and>
         (\<exists>it. \<forall>b. b \<noteq> it \<longrightarrow> heap m' b = heap m b) \<and>
         length (m_RequestQueue (m_TextureConverter m'))
           \<le> Suc (length (m_RequestQueue (m_TextureConverter m))) \<and>
         (jobs_in_flight (m_TextureConverter m) \<le> 1 \<longrightarrow>
            jobs_in_flight (m_TextureConverter m') \<le> 1) \<and>
         (\<forall>q. m_RequestQueue (m_TextureConverter m') =
                 m_RequestQueue (m_TextureConverter m) @ [q] \<and>
               m_State (heap m (req_texture q)) = PREFETCH_NEEDS_CONVERTING \<longrightarrow>
                 none_in_state (heap m) HIGH_NEEDS_CONVERTING (m_TextureCache m)) \<and>
         (reachable m \<longrightarrow> jobs_in_flight (m_TextureConverter m) \<le> 1 \<and>
                          jobs_in_flight (m_TextureConverter m') \<le> 1)"
proof -
  let ?c = "m_TextureConverter m"
  let ?c' = "m_TextureConverter m'"
  let ?h = "heap m"
  let ?xs = "m_TextureCache m"
  have p1: "r \<and> m_State (heap m' texture) = LOADED \<and>
              (\<forall>b. b \<noteq> texture \<longrightarrow> heap m' b = heap m b) \<and> ?c' = c'"
    if poll: "Poll ?c = Some ((texture, dest, ok), c')" for texture dest ok c'
    using mp by (auto simp: MakeProgress_poll [OF poll] LoadTexture_other)
  have p2: "r \<and> heap m' = ?h(it := set_state HIGH_IS_CONVERTING (?h it)) \<and>
              (\<exists>q. m_RequestQueue ?c' = m_RequestQueue ?c @ [q] \<and> req_texture q = it)"
    if h: "Poll ?c = None" "\<not> IsBusy ?c" "first_in_state ?h HIGH_NEEDS_CONVERTING ?xs it" for it
  proof -
    have f: "find_state ?h HIGH_NEEDS_CONVERTING ?xs = Some it"
      using h(3) by (simp add: find_state_first)
    show ?thesis
      using mp by (auto simp: MakeProgress_high [OF h(1,2) f] ConvertTexture_queue upd_def)
  qed
  have p3: "r \<and> m_State (heap m' it) =
                    (if fst (TryLoadingCached env m it) then LOADED
                     else PREFETCH_NEEDS_CONVERTING) \<and>
              (\<forall>b. b \<noteq> it \<longrightarrow> heap m' b = heap m b) \<and> ?c' = ?c"
    if h: "Poll ?c = None" "IsBusy ?c \<or> none_in_state ?h HIGH_NEEDS_CONVERTING ?xs"
      "first_in_state ?h PREFETCH_NEEDS_LOADING ?xs it" for it
  proof -
    have f: "find_state ?h PREFETCH_NEEDS_LOADING ?xs = Some it"
      using h(3) by (simp add: find_state_first)
    have g: "IsBusy ?c \<or> find_state ?h HIGH_NEEDS_CONVERTING ?xs = None"
      using h(2) by (simp add: find_state_none)
    show ?thesis
      using mp by (auto simp: MakeProgress_load [OF h(1) g f] TryLoadingCached_other)
  qed
  have p4: "r \<and> heap m' = ?h(it := set_state PREFETCH_IS_CONVERTING (?h it)) \<and>
              (\<exists>q. m_RequestQueue ?c' = m_RequestQueue ?c @ [q] \<and> req_texture q = it)"
    if h: "Poll ?c = None" "\<not> IsBusy ?c" "none_in_state ?h HIGH_NEEDS_CONVERTING ?xs"
      "none_in_state ?h PREFETCH_NEEDS_LOADING ?xs"
      "first_in_state ?h PREFETCH_NEEDS_CONVERTING ?xs it" for it
  proof -
    have f: "find_state ?h HIGH_NEEDS_CONVERTING ?xs = None"
      "find_state ?h PREFETCH_NEEDS_LOADING ?xs = None"
      "find_state ?h PREFETCH_NEEDS_CONVERTING ?xs = Some it"
      using h(3,4,5) by (simp_all add: find_state_first find_state_none)
    show ?thesis
      using mp by (auto simp: MakeProgress_prefetch [OF h(1,2) f] ConvertTexture_queue upd_def)
  qed
  have p5: "\<not> r \<and> m' = m"
    if h: "Poll ?c = None" "none_in_state ?h PREFETCH_NEEDS_LOADING ?xs"
      "IsBusy ?c \<or> none_in_state ?h HIGH_NEEDS_CONVERTING ?xs \<and>
                    none_in_state ?h PREFETCH_NEEDS_CONVERTING ?xs"
  proof -
    have f: "find_state ?h PREFETCH_NEEDS_LOADING ?xs = None"
      "IsBusy ?c \<or> (find_state ?h HIGH_NEEDS_CONVERTING ?xs = None \<and>
                    find_state ?h PREFETCH_NEEDS_CONVERTING ?xs = None)"
      using h(2,3) by (simp_all add: find_state_none)
    show ?thesis using mp by (simp add: MakeProgress_idle [OF h(1) f])
  qed
  note s = MakeProgress_summary [OF mp]
  have p6: "\<exists>it. \<forall>b. b \<noteq> it \<longrightarrow> heap m' b = heap m b" using s by blast
  have p7: "length (m_RequestQueue ?c') \<le> Suc (length (m_RequestQueue ?c))"
    using s by auto
  have p8: "jobs_in_flight ?c' \<le> 1" if "jobs_in_flight ?c \<le> 1"
    using s that by (auto simp: jobs_in_flight_def IsBusy_def)
  have p9: "none_in_state ?h HIGH_NEEDS_CONVERTING ?xs"
    if "m_RequestQueue ?c' = m_RequestQueue ?c @ [q]"
      "m_State (?h (req_texture q)) = PREFETCH_NEEDS_CONVERTING" for q
    using s that by auto
  have p10: "jobs_in_flight ?c \<le> 1 \<and> jobs_in_flight ?c' \<le> 1" if "reachable m"
    using reachable_in_flight [OF that] p8 by simp
  show ?thesis
    using p1 p2 p3 p4 p5 p6 p7 p8 p9 p10 by blast
qed


lemma ex_manager2_fields:
  "m_DisableGL ex_manager2 = False"
  "m_TextureConverter ex_manager2 = \<lparr>m_RequestQueue = [], m_ResultQueue = []\<rparr>"
  "m_DefaultHandle ex_manager2 = 1"
  "m_ErrorHandle ex_manager2 = 2"
  "m_TextureCache ex_manager2 = [Suc 0, 2]"
  "live ex_manager2 = {0, Suc 0, 2}"
  "heap ex_manager2 (Suc 0) = \<lparr>m_Handle = 1, m_BaseColour = 0, m_State = UNLOADED,
      m_Properties = ex_key ''a.png'' 1, m_Self = Some (Suc 0)\<rparr>"
  "heap ex_manager2 2 = \<lparr>m_Handle = 1, m_BaseColour = 0, m_State = UNLOADED,
      m_Properties = ex_key ''b.png'' 1, m_Self = Some 2\<rparr>"
  by (auto simp: ex_manager2_def CreateTexture_def Let_def ex_manager1_fields new_CTexture_def
      ex_key_def cmp_equiv_def TextureCacheCmp_def)


lemma ex_two_fields:
  "m_TextureCache (ex_two s1 s2) = [Suc 0, 2]"
  "m_TextureConverter (ex_two s1 s2) = \<lparr>m_RequestQueue = [], m_ResultQueue = []\<rparr>"
  "m_State (heap (ex_two s1 s2) (Suc 0)) = s1"
  "m_State (heap (ex_two s1 s2) 2) = s2"
  "m_Properties (heap (ex_two s1 s2) (Suc 0)) = ex_key ''a.png'' 1"
  "m_ErrorHandle (ex_two s1 s2) = 2"
  "m_DisableGL (ex_two s1 s2) = False"
  by (simp_all add: ex_two_def ex_manager2_fields)

lemma ex_polled_fields:
  "m_TextureCache (ex_polled s1 s2 ok) = [Suc 0, 2]"
  "m_TextureConverter (ex_polled s1 s2 ok) =
     \<lparr>m_RequestQueue = [], m_ResultQueue = [(Suc 0, [''cache'', ''art'', ''a.png.0.dds''], ok)]\<rparr>"
  "m_State (heap (ex_polled s1 s2 ok) (Suc 0)) = s1"
  "m_State (heap (ex_polled s1 s2 ok) 2) = s2"
  "m_ErrorHandle (ex_polled s1 s2 ok) = 2"
  "m_DisableGL (ex_polled s1 s2 ok) = False"
  by (simp_all add: ex_polled_def ex_two_fields)

lemma ex_busy_fields:
  "m_TextureCache (ex_busy s1 s2) = [Suc 0, 2]"
  "m_ResultQueue (m_TextureConverter (ex_busy s1 s2)) = []"
  "m_RequestQueue (m_TextureConverter (ex_busy s1 s2)) =
     [\<lparr>req_texture = Suc 0, req_src = ex_src,
       req_dest = [''cache'', ''art'', ''a.png.0.dds''], req_settings = 0\<rparr>]"
  "m_State (heap (ex_busy s1 s2) (Suc 0)) = s1"
  "m_State (heap (ex_busy s1 s2) 2) = s2"
  "m_Properties (heap (ex_busy s1 s2) (Suc 0)) = ex_key ''a.png'' 1"
  "m_ErrorHandle (ex_busy s1 s2) = 2"
  by (simp_all add: ex_busy_def ex_two_fields)

theorem MakeProgress_priority_witness:
  "Poll (m_TextureConverter (ex_polled HIGH_IS_CONVERTING PREFETCH_NEEDS_CONVERTING False)) =
     Some ((1, [''cache'', ''art'', ''a.png.0.dds''], False),
           \<lparr>m_RequestQueue = [], m_ResultQueue = []\<rparr>) \<and>
   fst (MakeProgress (ex_env Map.empty (\<lambda>p. 7))
          (ex_polled HIGH_IS_CONVERTING PREFETCH_NEEDS_CONVERTING False)) \<and>
   m_State (heap (snd (MakeProgress (ex_env Map.empty (\<lambda>p. 7))
          (ex_polled HIGH_IS_CONVERTING PREFETCH_NEEDS_CONVERTING False))) 1) = LOADED \<and>
   first_in_state (heap (ex_two PREFETCH_NEEDS_CONVERTING HIGH_NEEDS_CONVERTING))
     HIGH_NEEDS_CONVERTING
     (m_TextureCache (ex_two PREFETCH_NEEDS_CONVERTING HIGH_NEEDS_CONVERTING)) 2 \<and>
   m_State (heap (snd (MakeProgress (ex_env Map.empty (\<lambda>p. 7))
          (ex_two PREFETCH_NEEDS_CONVERTING HIGH_NEEDS_CONVERTING))) 2) = HIGH_IS_CONVERTING \<and>
   m_State (heap (snd (MakeProgress (ex_env Map.empty (\<lambda>p. 7))
          (ex_two PREFETCH_NEEDS_CONVERTING HIGH_NEEDS_CONVERTING))) 1)
     = PREFETCH_NEEDS_CONVERTING \<and>
   IsBusy (m_TextureConverter (ex_busy PREFETCH_NEEDS_LOADING HIGH_NEEDS_CONVERTING)) \<and>
   m_State (heap (snd (MakeProgress (ex_env Map.empty (\<lambda>p. 7))
          (ex_busy PREFETCH_NEEDS_LOADING HIGH_NEEDS_CONVERTING))) 1) = LOADED \<and>
   m_TextureConverter (snd (MakeProgress (ex_env Map.empty (\<lambda>p. 7))
          (ex_busy PREFETCH_NEEDS_LOADING HIGH_NEEDS_CONVERTING)))
     = m_TextureConverter (ex_busy PREFETCH_NEEDS_LOADING HIGH_NEEDS_CONVERTING) \<and>
   m_State (heap (snd (MakeProgress (ex_env Map.empty (\<lambda>p. 7))
          (ex_two PREFETCH_NEEDS_CONVERTING UNLOADED))) 1) = PREFETCH_IS_CONVERTING \<and>
   MakeProgress (ex_env Map.empty (\<lambda>p. 7)) (ex_busy PREFETCH_NEEDS_CONVERTING HIGH_NEEDS_CONVERTING)
     = (False, ex_busy PREFETCH_NEEDS_CONVERTING HIGH_NEEDS_CONVERTING) \<and>
   reachable ex_manager \<and>
   jobs_in_flight (m_TextureConverter (snd (MakeProgress (ex_env Map.empty (\<lambda>p. 7)) ex_manager))) \<le> 1"
proof -
  let ?E = "ex_env Map.empty (\<lambda>p. 7)"
  let ?m1 = "ex_polled HIGH_IS_CONVERTING PREFETCH_NEEDS_CONVERTING False"
  let ?m2 = "ex_two PREFETCH_NEEDS_CONVERTING HIGH_NEEDS_CONVERTING"
  let ?m3 = "ex_busy PREFETCH_NEEDS_LOADING HIGH_NEEDS_CONVERTING"
  let ?m4 = "ex_two PREFETCH_NEEDS_CONVERTING UNLOADED"
  let ?m5 = "ex_busy PREFETCH_NEEDS_CONVERTING HIGH_NEEDS_CONVERTING"
  have h1: "Poll (m_TextureConverter ?m1) =
              Some ((Suc 0, [''cache'', ''art'', ''a.png.0.dds''], False),
                    \<lparr>m_RequestQueue = [], m_ResultQueue = []\<rparr>)"
    by (simp add: Poll_def ex_polled_fields)
  have h2: "Poll (m_TextureConverter ?m2) = None" "\<not> IsBusy (m_TextureConverter ?m2)"
    "first_in_state (heap ?m2) HIGH_NEEDS_CONVERTING (m_TextureCache ?m2) 2"
    by (simp_all add: Poll_def IsBusy_def jobs_in_flight_def ex_two_fields
        find_state_first [symmetric])
  have h3: "Poll (m_TextureConverter ?m3) = None" "IsBusy (m_TextureConverter ?m3)"
    "first_in_state (heap ?m3) PREFETCH_NEEDS_LOADING (m_TextureCache ?m3) (Suc 0)"
    by (simp_all add: Poll_def IsBusy_def jobs_in_flight_def ex_busy_fields
        find_state_first [symmetric])
  have t3: "fst (TryLoadingCached ?E ?m3 (Suc 0))"
    by (simp add: TryLoadingCached_def CanUseArchiveCache_def Let_def ex_busy_fields)
  have h4: "Poll (m_TextureConverter ?m4) = None" "\<not> IsBusy (m_TextureConverter ?m4)"
    "none_in_state (heap ?m4) HIGH_NEEDS_CONVERTING (m_TextureCache ?m4)"
    "none_in_state (heap ?m4) PREFETCH_NEEDS_LOADING (m_TextureCache ?m4)"
    "first_in_state (heap ?m4) PREFETCH_NEEDS_CONVERTING (m_TextureCache ?m4) (Suc 0)"
    by (simp_all add: Poll_def IsBusy_def jobs_in_flight_def ex_two_fields
        find_state_first [symmetric] find_state_none [symmetric])
  have h5: "Poll (m_TextureConverter ?m5) = None" "IsBusy (m_TextureConverter ?m5)"
    "none_in_state (heap ?m5) PREFETCH_NEEDS_LOADING (m_TextureCache ?m5)"
    by (simp_all add: Poll_def IsBusy_def jobs_in_flight_def ex_busy_fields
        find_state_none [symmetric])
  have h6: "reachable ex_manager"
    unfolding ex_manager_def by (rule reachable.init)
  note p = MakeProgress_priority [OF surjective_pairing]
  note p1 = p [THEN conjunct1, rule_format]
  note p2 = p [THEN conjunct2, THEN conjunct1, rule_format]
  note p3 = p [THEN conjunct2, THEN conjunct2, THEN conjunct1, rule_format]
  note p4 = p [THEN conjunct2, THEN conjunct2, THEN conjunct2, THEN conjunct1, rule_format]
  note p5 = p [THEN conjunct2, THEN conjunct2, THEN conjunct2, THEN conjunct2, THEN conjunct1,
      rule_format]
  note p10 = p [THEN conjunct2, THEN conjunct2, THEN conjunct2, THEN conjunct2, THEN conjunct2,
      THEN conjunct2, THEN conjunct2, THEN conjunct2, THEN conjunct2, rule_format]
  have c1: "fst (MakeProgress ?E ?m1) \<and> m_State (heap (snd (MakeProgress ?E ?m1)) (Suc 0)) = LOADED"
    using p1 [where env = ?E and m = ?m1, OF h1] by simp
  have "heap (snd (MakeProgress ?E ?m2)) =
          (heap ?m2)(2 := set_state HIGH_IS_CONVERTING (heap ?m2 2))"
    using p2 [where env = ?E and m = ?m2 and it = 2] h2 by simp
  then have c2: "m_State (heap (snd (MakeProgress ?E ?m2)) 2) = HIGH_IS_CONVERTING"
    "m_State (heap (snd (MakeProgress ?E ?m2)) (Suc 0)) = PREFETCH_NEEDS_CONVERTING"
    by (simp_all add: ex_two_fields)
  have c3: "m_State (heap (snd (MakeProgress ?E ?m3)) (Suc 0)) = LOADED"
    "m_TextureConverter (snd (MakeProgress ?E ?m3)) = m_TextureConverter ?m3"
    using p3 [where env = ?E and m = ?m3 and it = "Suc 0"] h3 t3 by simp_all
  have "heap (snd (MakeProgress ?E ?m4)) =
          (heap ?m4)(Suc 0 := set_state PREFETCH_IS_CONVERTING (heap ?m4 (Suc 0)))"
    using p4 [where env = ?E and m = ?m4 and it = "Suc 0"] h4 by simp
  then have c4: "m_State (heap (snd (MakeProgress ?E ?m4)) (Suc 0)) = PREFETCH_IS_CONVERTING"
    by simp
  have "\<not> fst (MakeProgress ?E ?m5) \<and> snd (MakeProgress ?E ?m5) = ?m5"
    using p5 [where env = ?E and m = ?m5] h5 by simp
  then have c5: "MakeProgress ?E ?m5 = (False, ?m5)"
    by (simp add: prod_eq_iff)
  have c6: "jobs_in_flight (m_TextureConverter (snd (MakeProgress ?E ex_manager))) \<le> 1"
    using p10 [where env = ?E and m = ex_manager, OF h6] by simp
  show ?thesis
    using h1 h2(3) h3(2) c1 c2 c3 c4 c5 h6 c6 by simp
qed


theorem MakeProgress_completion_witness:
  "Poll (m_TextureConverter (ex_polled HIGH_IS_CONVERTING UNLOADED False)) =
     Some ((1, [''cache'', ''art'', ''a.png.0.dds''], False),
           \<lparr>m_RequestQueue = [], m_ResultQueue = []\<rparr>) \<and>
   fst (MakeProgress (ex_env Map.empty (\<lambda>p. 7)) (ex_polled HIGH_IS_CONVERTING UNLOADED False)) \<and>
   m_State (heap (snd (MakeProgress (ex_env Map.empty (\<lambda>p. 7))
                         (ex_polled HIGH_IS_CONVERTING UNLOADED False))) 1) = LOADED \<and>
   m_Handle (heap (snd (MakeProgress (ex_env Map.empty (\<lambda>p. 7))
                          (ex_polled HIGH_IS_CONVERTING UNLOADED False))) 1) = 2 \<and>
   m_State (heap (snd (MakeProgress (ex_env Map.empty (\<lambda>p. 7))
                         (ex_polled PREFETCH_IS_CONVERTING UNLOADED True))) 1) = LOADED \<and>
   m_Handle (heap (snd (MakeProgress (ex_env Map.empty (\<lambda>p. 7))
                          (ex_polled PREFETCH_IS_CONVERTING UNLOADED True))) 1) = 7 \<and>
   m_Handle (heap (snd (MakeProgress (ex_env Map.empty (\<lambda>p. 66))
                          (ex_polled PREFETCH_IS_CONVERTING UNLOADED True))) 1) = 2 \<and>
   m_RequestQueue (m_TextureConverter (snd (MakeProgress (ex_env Map.empty (\<lambda>p. 7))
                              (ex_polled PREFETCH_IS_CONVERTING UNLOADED True)))) = [] \<and>
   m_ResultQueue (m_TextureConverter (snd (MakeProgress (ex_env Map.empty (\<lambda>p. 7))
                              (ex_polled PREFETCH_IS_CONVERTING UNLOADED True)))) = []"
proof -
  let ?E = "ex_env Map.empty (\<lambda>p. 7)"
  let ?F = "ex_env Map.empty (\<lambda>p. 66)"
  have h: "Poll (m_TextureConverter (ex_polled s1 s2 ok)) =
              Some ((Suc 0, [''cache'', ''art'', ''a.png.0.dds''], ok),
                    \<lparr>m_RequestQueue = [], m_ResultQueue = []\<rparr>)" for s1 s2 ok
    by (simp add: Poll_def ex_polled_fields)
  note c1 = MakeProgress_completion [OF h [of HIGH_IS_CONVERTING UNLOADED False]
      surjective_pairing, where env = ?E]
  note c2 = MakeProgress_completion [OF h [of PREFETCH_IS_CONVERTING UNLOADED True]
      surjective_pairing, where env = ?E]
  note c3 = MakeProgress_completion [OF h [of PREFETCH_IS_CONVERTING UNLOADED True]
      surjective_pairing, where env = ?F]
  show ?thesis
    using h [of HIGH_IS_CONVERTING UNLOADED False] c1 c2 c3
    by (simp add: ex_polled_fields LoadTexture_handle)
qed

section \<open>Invariants of the reachable managers, and deduplication\<close>

lemma same_frame_TryLoad: "same_frame m (snd (TryLoad env m this))"
  by (auto simp: same_frame_def TryLoad_def Let_def split_beta split: option.splits)

lemma same_frame_Prefetch: "same_frame m (Prefetch m this)"
  by (auto simp: same_frame_def Prefetch_def split: option.splits)

lemma same_frame_Reload: "same_frame m (ReloadChangedFile m path)"
  by (auto simp: same_frame_def ReloadChangedFile_def Let_def heap_fold_reload_one
      split: option.splits)

lemma same_frame_worker:
  "same_frame m (m\<lparr>m_TextureConverter := worker_finish ok (m_TextureConverter m)\<rparr>)"
  by (simp add: same_frame_def)

lemma same_frame_MakeProgress: "same_frame m (snd (MakeProgress env m))"
proof (cases m rule: MakeProgress_split)
  case (poll texture dest ok c')
  show ?thesis by (simp add: MakeProgress_poll [OF poll] same_frame_def)
next
  case (high it)
  show ?thesis by (simp add: MakeProgress_high [OF high] same_frame_def)
next
  case (load it)
  show ?thesis by (simp add: MakeProgress_load [OF load] same_frame_def)
next
  case (prefetch it)
  show ?thesis by (simp add: MakeProgress_prefetch [OF prefetch] same_frame_def)
next
  case idle
  show ?thesis by (simp add: MakeProgress_idle [OF idle] same_frame_def)
qed

lemma same_frame_cache_inv: "same_frame m m' \<Longrightarrow> cache_inv m \<Longrightarrow> cache_inv m'"
  by (simp add: same_frame_def cache_inv_def)


lemma CreateTexture_cache_inv: "cache_inv m \<Longrightarrow> cache_inv (snd (CreateTexture m k))"
  using CreateTexture_post [OF _ surjective_pairing, of m k] by simp

lemma cache_insert_superset: "set xs \<subseteq> set (cache_insert h a xs)"
  by (induction xs) auto

lemma CreateTexture_mono:
  "set (m_TextureCache m) \<subseteq> set (m_TextureCache (snd (CreateTexture m k))) \<and>
         brk m \<le> brk (snd (CreateTexture m k)) \<and>
     (\<forall>a. a < brk m \<longrightarrow> heap (snd (CreateTexture m k)) a = heap m a)"
proof (cases "cache_find ((heap m)(brk m := new_CTexture (m_DefaultHandle m) k)) k (m_TextureCache m)")
  case (Some it)
  then show ?thesis by (simp add: CreateTexture_def Let_def)
next
  case None
  let ?h' = "(heap m)(brk m := (new_CTexture (m_DefaultHandle m) k)\<lparr>m_Self := Some (brk m)\<rparr>)"
  have sub: "set (m_TextureCache m) \<subseteq> set (cache_insert ?h' (brk m) (m_TextureCache m))"
    by (rule cache_insert_superset)
  show ?thesis using None sub by (simp add: CreateTexture_def Let_def)
qed




lemma grows_same_frame: "grows m m' \<Longrightarrow> same_frame m' m'' \<Longrightarrow> grows m m''"
  by (simp add: grows_def same_frame_def)

lemma grows_create: "grows m m' \<Longrightarrow> grows m (snd (CreateTexture m' k))"
  using CreateTexture_mono [of m' k] by (auto simp: grows_def)

lemma evolves_inv:
  "evolves m m' \<Longrightarrow> cache_inv m \<Longrightarrow> cache_inv m' \<and> grows m m'"
proof (induction rule: evolves.induct)
  case (same m)
  then show ?case by (simp add: grows_def)
next
  case (create m m' props)
  then show ?case by (simp add: CreateTexture_cache_inv grows_create)
next
  case (tryload m m' env this)
  then show ?case
    using same_frame_cache_inv [OF same_frame_TryLoad] grows_same_frame [OF _ same_frame_TryLoad]
    by blast
next
  case (prefetch m m' this)
  then show ?case
    using same_frame_cache_inv [OF same_frame_Prefetch] grows_same_frame [OF _ same_frame_Prefetch]
    by blast
next
  case (progress m m' env)
  then show ?case
    using same_frame_cache_inv [OF same_frame_MakeProgress]
      grows_same_frame [OF _ same_frame_MakeProgress]
    by blast
next
  case (reload m m' path)
  then show ?case
    using same_frame_cache_inv [OF same_frame_Reload] grows_same_frame [OF _ same_frame_Reload]
    by blast
next
  case (worker m m' ok)
  then show ?case
    using same_frame_cache_inv [OF same_frame_worker] grows_same_frame [OF _ same_frame_worker]
    by blast
qed

text \<open>
  C1. Take a manager that satisfies the invariant of the cache, as every reachable
  manager does. Whatever operations run between two calls of \<open>CreateTexture\<close>, the
  two calls return the same pointer exactly when their keys are equivalent under
  \<open>TextureCacheCmp\<close>, and two keys are equivalent exactly when path, filter, wrap and
  anisotropy are equal. So equal keys share one entry, and keys that differ in a single
  field get distinct entries.
\<close>

theorem CreateTexture_dedup:
  assumes inv: "cache_inv m"
    and c1: "CreateTexture m k1 = (p1, m1)"
    and ev: "evolves m1 m2"
    and c2: "CreateTexture m2 k2 = (p2, m3)"
  shows "(p1 = p2) = cmp_equiv k1 k2 \<and>
         cmp_equiv k1 k2 =
           (m_Path k1 = m_Path k2 \<and> m_Filter k1 = m_Filter k2 \<and>
            m_Wrap k1 = m_Wrap k2 \<and> m_Aniso k1 = m_Aniso k2)"
proof -
  from CreateTexture_post [OF inv c1]
  have inv1: "cache_inv m1" and mem1: "p1 \<in> set (m_TextureCache m1)"
    and key1: "m_Properties (heap m1 p1) = k1" by simp_all
  have lt1: "p1 < brk m1" using inv1 mem1 by (simp add: cache_inv_def)
  from evolves_inv [OF ev inv1]
  have inv2: "cache_inv m2" and g: "grows m1 m2" by simp_all
  have mem2: "p1 \<in> set (m_TextureCache m2)" using g mem1 by (auto simp: grows_def)
  have key2: "m_Properties (heap m2 p1) = k1" using g lt1 key1 by (simp add: grows_def)
  have lt2: "p1 < brk m2" using inv2 mem2 by (simp add: cache_inv_def)
  from CreateTexture_post [OF inv2 c2]
  have key3: "m_Properties (heap m3 p2) = k2" by simp
  have a: "p1 = p2" if "k1 = k2"
    using CreateTexture_lookup [OF inv2 mem2] c2 unfolding key2 that by simp
  have b: "k1 = k2" if "p1 = p2"
    using CreateTexture_heap [OF c2 lt2] key2 key3 unfolding that by simp
  have "(p1 = p2) = (k1 = k2)" using a b by blast
  then have "(p1 = p2) = cmp_equiv k1 k2" by (simp only: cmp_equiv_eq)
  then show ?thesis by (simp only: cmp_equiv_iff simp_thms)
qed

theorem CreateTexture_dedup_witness:
  "cache_inv ex_manager \<and>
   evolves ex_manager1 (snd (TryLoad (ex_env Map.empty (\<lambda>p. 7)) ex_manager1 1)) \<and>
   fst (CreateTexture ex_manager (ex_key ''a.png'' 1))
     = fst (CreateTexture (snd (TryLoad (ex_env Map.empty (\<lambda>p. 7)) ex_manager1 1))
              (ex_key ''a.png'' 1)) \<and>
   fst (CreateTexture ex_manager (ex_key ''a.png'' 1))
     \<noteq> fst (CreateTexture (snd (TryLoad (ex_env Map.empty (\<lambda>p. 7)) ex_manager1 1))
              (ex_key ''a.png'' 2)) \<and>
   fst (CreateTexture ex_manager (ex_key ''a.png'' 1))
     \<noteq> fst (CreateTexture (snd (TryLoad (ex_env Map.empty (\<lambda>p. 7)) ex_manager1 1))
              (ex_key ''b.png'' 1))"
proof -
  have inv: "cache_inv ex_manager"
    unfolding ex_manager_def by (rule cache_inv_new)
  have c1: "CreateTexture ex_manager (ex_key ''a.png'' 1) =
              (fst (CreateTexture ex_manager (ex_key ''a.png'' 1)), ex_manager1)"
    by (simp add: ex_manager1_def)
  have ev: "evolves ex_manager1 (snd (TryLoad (ex_env Map.empty (\<lambda>p. 7)) ex_manager1 1))"
    by (rule evolves.tryload [OF evolves.same])
  note d = CreateTexture_dedup [OF inv c1 ev surjective_pairing]
  show ?thesis
    using inv ev d [of "ex_key ''a.png'' 1"] d [of "ex_key ''a.png'' 2"]
      d [of "ex_key ''b.png'' 1"]
    by (simp add: ex_key_def)
qed

section \<open>The hotload index of the reachable managers\<close>
















end
